theory Spec2Isabelle
  imports Complex_Main "HOL-Library.AList"
begin

section \<open>Python objects: an explicit store\<close>

text \<open>
  The program keeps every path as a Python dict whose entry \<^verbatim>\<open>'points'\<close> refers to a
  list object, whose elements refer to two-element list objects \<^verbatim>\<open>[lat, lon]\<close>.
  Dicts and lists are mutable and shared by reference, so the model keeps them in a
  store: one table per kind of object and one allocation counter. A reference is a
  natural number; \<open>next_ref\<close> is the first reference that was never handed out.
  Python numbers (int or float) are modelled as real numbers: arithmetic is exact, and
  rounding of floating point numbers is outside the model.
\<close>

type_synonym ref = nat

type_synonym waypoint = "real \<times> real"

datatype py_error = ValueError | IndexError

text \<open>The dict of one path; the keys \<^verbatim>\<open>'id'\<close> and \<^verbatim>\<open>'type'\<close> are the fields
  \<open>path_id\<close> and \<open>path_type\<close>.\<close>

record path_data =
  path_id :: string
  path_type :: string
  points :: ref
  distance_nm :: real
  speed_kts :: real
  altitude_ft :: real
  current_position :: real
  color :: string
  created :: string

record heap =
  dicts :: "ref \<Rightarrow> path_data"
  lists :: "ref \<Rightarrow> ref list"
  cells :: "ref \<Rightarrow> waypoint"
  next_ref :: ref

definition new_dict :: "heap \<Rightarrow> path_data \<Rightarrow> ref \<times> heap" where
  "new_dict h d =
     (next_ref h, h\<lparr>dicts := (dicts h)(next_ref h := d), next_ref := Suc (next_ref h)\<rparr>)"

definition new_list :: "heap \<Rightarrow> ref list \<Rightarrow> ref \<times> heap" where
  "new_list h xs =
     (next_ref h, h\<lparr>lists := (lists h)(next_ref h := xs), next_ref := Suc (next_ref h)\<rparr>)"

definition new_cell :: "heap \<Rightarrow> waypoint \<Rightarrow> ref \<times> heap" where
  "new_cell h p =
     (next_ref h, h\<lparr>cells := (cells h)(next_ref h := p), next_ref := Suc (next_ref h)\<rparr>)"

definition set_dict :: "heap \<Rightarrow> ref \<Rightarrow> path_data \<Rightarrow> heap" where
  "set_dict h r d = h\<lparr>dicts := (dicts h)(r := d)\<rparr>"

definition set_list :: "heap \<Rightarrow> ref \<Rightarrow> ref list \<Rightarrow> heap" where
  "set_list h l xs = h\<lparr>lists := (lists h)(l := xs)\<rparr>"

text \<open>The waypoints a list object holds, read through the store.\<close>

definition read_points :: "heap \<Rightarrow> ref \<Rightarrow> waypoint list" where
  "read_points h l = map (cells h) (lists h l)"

text \<open>\<^verbatim>\<open>[p[:] for p in points]\<close>: a new list object holding a new copy of every
  waypoint.\<close>

fun copy_cells :: "heap \<Rightarrow> ref list \<Rightarrow> ref list \<times> heap" where
  "copy_cells h [] = ([], h)"
| "copy_cells h (p # ps) =
     (let (q, h1) = new_cell h (cells h p);
          (qs, h2) = copy_cells h1 ps
      in (q # qs, h2))"

definition deep_copy_points :: "heap \<Rightarrow> ref \<Rightarrow> ref \<times> heap" where
  "deep_copy_points h l = (let (qs, h1) = copy_cells h (lists h l) in new_list h1 qs)"

section \<open>Python arithmetic and indexing\<close>

text \<open>\<^verbatim>\<open>math.sqrt\<close> and \<^verbatim>\<open>math.asin\<close> raise \<^verbatim>\<open>ValueError\<close> outside their
  domains.\<close>

definition py_sqrt :: "real \<Rightarrow> py_error + real" where
  "py_sqrt x = (if x < 0 then Inl ValueError else Inr (sqrt x))"

definition py_asin :: "real \<Rightarrow> py_error + real" where
  "py_asin x = (if x < - 1 \<or> 1 < x then Inl ValueError else Inr (arcsin x))"

definition radians :: "real \<Rightarrow> real" where
  "radians x = x * pi / 180"

definition degrees :: "real \<Rightarrow> real" where
  "degrees x = x * 180 / pi"

definition atan2 :: "real \<Rightarrow> real \<Rightarrow> real" where
  "atan2 y x =
     (if 0 < x then arctan (y / x)
      else if x < 0 \<and> 0 \<le> y then arctan (y / x) + pi
      else if x < 0 then arctan (y / x) - pi
      else if 0 < y then pi / 2
      else if y < 0 then - (pi / 2)
      else 0)"

text \<open>\<^verbatim>\<open>int(x)\<close> truncates towards zero; \<^verbatim>\<open>x % m\<close> on floats has the sign of
  \<open>m\<close>.\<close>

definition py_int :: "real \<Rightarrow> int" where
  "py_int x = (if 0 \<le> x then \<lfloor>x\<rfloor> else \<lceil>x\<rceil>)"

definition py_mod :: "real \<Rightarrow> real \<Rightarrow> real" where
  "py_mod x m = x - m * of_int \<lfloor>x / m\<rfloor>"

text \<open>\<^verbatim>\<open>xs[i]\<close>: a negative index counts from the end, an index out of range
  raises \<^verbatim>\<open>IndexError\<close>.\<close>

definition py_index :: "'a list \<Rightarrow> int \<Rightarrow> py_error + 'a" where
  "py_index xs i =
     (if 0 \<le> i \<and> i < int (length xs) then Inr (xs ! nat i)
      else if i < 0 \<and> - int (length xs) \<le> i then Inr (xs ! nat (int (length xs) + i))
      else Inl IndexError)"

text \<open>\<^verbatim>\<open>random.randint(a, b)\<close>: the generator is an input of the model, the integer
  \<open>r\<close>; every value from \<open>a\<close> to \<open>b\<close> can be drawn, and nothing else.\<close>

definition randint :: "int \<Rightarrow> int \<Rightarrow> int \<Rightarrow> int" where
  "randint a b r = a + r mod (b - a + 1)"

text \<open>\<^verbatim>\<open>f"{n:04d}"\<close>: decimal digits, padded with zeros to four characters.\<close>

definition digit_char :: "nat \<Rightarrow> char" where
  "digit_char d = ''0123456789'' ! d"

fun decimal :: "nat \<Rightarrow> string" where
  "decimal n = (if n < 10 then [digit_char n] else decimal (n div 10) @ [digit_char (n mod 10)])"

declare decimal.simps [simp del]

definition format_04d :: "nat \<Rightarrow> string" where
  "format_04d n = (let s = decimal n in replicate (4 - length s) CHR ''0'' @ s)"

section \<open>Geodesy\<close>

text \<open>One iteration of the loop of \<^verbatim>\<open>PathManager._calculate_distance\<close>: the
  haversine intermediate \<open>a\<close> of two waypoints, the angle \<open>c\<close> and the distance. The
  source passes \<open>a\<close> to the square root and the arcsine as it is; there is no clamp.
  Over the real numbers \<open>a\<close> lies between 0 and 1 for every pair of waypoints, so the
  two error branches are never taken there. In double precision rounding can carry \<open>a\<close>
  across either bound, and what the program does then (the square root rounding the
  excess away, or a domain error) is not what these definitions say: nothing stated below
  is about that case.\<close>

definition earth_radius :: real where
  "earth_radius = 3440.065"

definition haversine_a :: "waypoint \<Rightarrow> waypoint \<Rightarrow> real" where
  "haversine_a p1 p2 =
     (let lat1 = radians (fst p1); lon1 = radians (snd p1);
          lat2 = radians (fst p2); lon2 = radians (snd p2);
          dlat = lat2 - lat1;
          dlon = lon2 - lon1
      in (sin (dlat / 2))\<^sup>2 + cos lat1 * cos lat2 * (sin (dlon / 2))\<^sup>2)"

definition central_angle :: "real \<Rightarrow> py_error + real" where
  "central_angle a =
     (case py_sqrt a of
        Inl e \<Rightarrow> Inl e
      | Inr s \<Rightarrow> (case py_asin s of Inl e \<Rightarrow> Inl e | Inr t \<Rightarrow> Inr (2 * t)))"

definition segment_distance :: "waypoint \<Rightarrow> waypoint \<Rightarrow> py_error + real" where
  "segment_distance p1 p2 =
     (case central_angle (haversine_a p1 p2) of
        Inl e \<Rightarrow> Inl e
      | Inr c \<Rightarrow> Inr (earth_radius * c))"

text \<open>The loop \<^verbatim>\<open>for i in range(len(points) - 1)\<close> with its accumulator
  \<^verbatim>\<open>total_distance\<close>.\<close>

fun distance_loop :: "waypoint list \<Rightarrow> real \<Rightarrow> py_error + real" where
  "distance_loop (p1 # p2 # ps) total_distance =
     (case segment_distance p1 p2 of
        Inl e \<Rightarrow> Inl e
      | Inr d \<Rightarrow> distance_loop (p2 # ps) (total_distance + d))"
| "distance_loop ps total_distance = Inr total_distance"

definition calculate_distance :: "waypoint list \<Rightarrow> py_error + real" where
  "calculate_distance pts = (if length pts < 2 then Inr 0 else distance_loop pts 0)"

text \<open>\<^verbatim>\<open>TacticalDrawingTab.calculate_path_distance\<close> repeats the same code.\<close>

definition calculate_path_distance :: "waypoint list \<Rightarrow> py_error + real" where
  "calculate_path_distance pts = (if length pts < 2 then Inr 0 else distance_loop pts 0)"

text \<open>\<^verbatim>\<open>PathManager._interpolate_path\<close>.\<close>

definition interpolate_path :: "waypoint list \<Rightarrow> real \<Rightarrow> py_error + waypoint" where
  "interpolate_path pts position =
     (if length pts < 2 then (if pts \<noteq> [] then py_index pts 0 else Inr (0, 0))
      else
        let segment_length = 1 / (real (length pts) - 1);
            segment_index = py_int (position / segment_length)
        in if int (length pts) - 1 \<le> segment_index then py_index pts (- 1)
           else
             let local_position =
                   (position - of_int segment_index * segment_length) / segment_length
             in (case py_index pts segment_index of
                   Inl e \<Rightarrow> Inl e
                 | Inr p1 \<Rightarrow>
                     (case py_index pts (segment_index + 1) of
                        Inl e \<Rightarrow> Inl e
                      | Inr p2 \<Rightarrow>
                          Inr (fst p1 + (fst p2 - fst p1) * local_position,
                               snd p1 + (snd p2 - snd p1) * local_position))))"

text \<open>\<^verbatim>\<open>PathManager._calculate_heading\<close>.\<close>

definition calculate_heading :: "waypoint list \<Rightarrow> real \<Rightarrow> py_error + real" where
  "calculate_heading pts position =
     (if length pts < 2 then Inr 0
      else
        (case interpolate_path pts position of
           Inl e \<Rightarrow> Inl e
         | Inr current \<Rightarrow>
             (let next_pos = min (position + 0.01) 0.999
              in (case interpolate_path pts next_pos of
                    Inl e \<Rightarrow> Inl e
                  | Inr next_point \<Rightarrow>
                      (let dlat = fst next_point - fst current;
                           dlon = snd next_point - snd current
                       in if dlat = 0 \<and> dlon = 0 then Inr 0
                          else Inr (py_mod (degrees (atan2 dlon dlat)) 360))))))"

section \<open>PathManager\<close>

text \<open>
  The two dicts of the manager map an identifier to the reference of the path's dict.
  A Python dict keeps insertion order, so each is an association list:
  \<^verbatim>\<open>d[k] = v\<close> is \<^const>\<open>AList.update\<close>, \<^verbatim>\<open>d.pop(k)\<close> is \<^const>\<open>AList.delete\<close>,
  \<^verbatim>\<open>k in d\<close> asks \<^const>\<open>map_of\<close>. The lock is not modelled: every method runs alone.
\<close>

record PathManager =
  aircraft_paths :: "(string \<times> ref) list"
  track_paths :: "(string \<times> ref) list"
  next_aircraft_id :: nat
  next_track_id :: nat

definition init_heap :: heap where
  "init_heap =
     \<lparr>dicts = (\<lambda>_. \<lparr>path_id = [], path_type = [], points = 0, distance_nm = 0,
                     speed_kts = 0, altitude_ft = 0, current_position = 0,
                     color = [], created = []\<rparr>),
      lists = (\<lambda>_. []), cells = (\<lambda>_. (0, 0)), next_ref = 0\<rparr>"

definition init_PathManager :: PathManager where
  "init_PathManager =
     \<lparr>aircraft_paths = [], track_paths = [], next_aircraft_id = 1, next_track_id = 1\<rparr>"

text \<open>\<^verbatim>\<open>value if value else random.randint(a, b)\<close>: \<^verbatim>\<open>None\<close> and zero are both
  false.\<close>

definition value_or_random :: "real option \<Rightarrow> int \<Rightarrow> int \<Rightarrow> int \<Rightarrow> real" where
  "value_or_random v a b r =
     (case v of
        None \<Rightarrow> of_int (randint a b r)
      | Some x \<Rightarrow> if x = 0 then of_int (randint a b r) else x)"

text \<open>\<^verbatim>\<open>add_aircraft_path(points, distance, speed, altitude)\<close>; \<open>rs\<close> and \<open>ra\<close> feed the
  two random draws and \<open>now\<close> is the time stamp. The caller's list object is stored as
  it is, and the reference of the stored dict is returned.\<close>

definition add_aircraft_path ::
  "heap \<Rightarrow> PathManager \<Rightarrow> ref \<Rightarrow> real \<Rightarrow> real option \<Rightarrow> real option \<Rightarrow> int \<Rightarrow> int \<Rightarrow> string
     \<Rightarrow> (string \<times> ref) \<times> heap \<times> PathManager" where
  "add_aircraft_path h pm pts distance speed altitude rs ra now =
     (let pid = ''AC-'' @ format_04d (next_aircraft_id pm);
          pm1 = pm\<lparr>next_aircraft_id := next_aircraft_id pm + 1\<rparr>;
          (d, h1) = new_dict h
            \<lparr>path_id = pid, path_type = ''aircraft'', points = pts, distance_nm = distance,
             speed_kts = value_or_random speed 400 550 rs,
             altitude_ft = value_or_random altitude 10000 35000 ra,
             current_position = 0, color = ''green'', created = now\<rparr>;
          pm2 = pm1\<lparr>aircraft_paths := AList.update pid d (aircraft_paths pm1)\<rparr>
      in ((pid, d), h1, pm2))"

definition add_track_path ::
  "heap \<Rightarrow> PathManager \<Rightarrow> ref \<Rightarrow> real \<Rightarrow> real option \<Rightarrow> real option \<Rightarrow> int \<Rightarrow> int \<Rightarrow> string
     \<Rightarrow> (string \<times> ref) \<times> heap \<times> PathManager" where
  "add_track_path h pm pts distance speed altitude rs ra now =
     (let pid = ''TRK-'' @ format_04d (next_track_id pm);
          pm1 = pm\<lparr>next_track_id := next_track_id pm + 1\<rparr>;
          (d, h1) = new_dict h
            \<lparr>path_id = pid, path_type = ''track'', points = pts, distance_nm = distance,
             speed_kts = value_or_random speed 350 500 rs,
             altitude_ft = value_or_random altitude 5000 20000 ra,
             current_position = 0, color = ''red'', created = now\<rparr>;
          pm2 = pm1\<lparr>track_paths := AList.update pid d (track_paths pm1)\<rparr>
      in ((pid, d), h1, pm2))"

text \<open>\<^verbatim>\<open>get_all_paths\<close>: a new dict filled by two \<^verbatim>\<open>update\<close> calls and copied once
  more. The new dict belongs to the caller alone, so it is a value; its entries are the
  references of the stored dicts.\<close>

definition dict_update :: "(string \<times> ref) list \<Rightarrow> (string \<times> ref) list \<Rightarrow> (string \<times> ref) list" where
  "dict_update d e = foldl (\<lambda>acc (k, v). AList.update k v acc) d e"

definition get_all_paths :: "PathManager \<Rightarrow> (string \<times> ref) list" where
  "get_all_paths pm = dict_update (dict_update [] (aircraft_paths pm)) (track_paths pm)"

text \<open>The chain \<^verbatim>\<open>if path_id in self.aircraft_paths ... elif path_id in
  self.track_paths\<close> that most methods start with.\<close>

definition lookup_path :: "PathManager \<Rightarrow> string \<Rightarrow> ref option" where
  "lookup_path pm pid =
     (case map_of (aircraft_paths pm) pid of
        Some r \<Rightarrow> Some r
      | None \<Rightarrow> map_of (track_paths pm) pid)"

text \<open>\<^verbatim>\<open>get_path_by_id\<close>: \<^verbatim>\<open>dict.copy()\<close> makes a new dict with the same entries, so
  the copy refers to the list object of the stored path.\<close>

definition get_path_by_id :: "heap \<Rightarrow> PathManager \<Rightarrow> string \<Rightarrow> ref option \<times> heap" where
  "get_path_by_id h pm pid =
     (case lookup_path pm pid of
        Some r \<Rightarrow> (let (c, h1) = new_dict h (dicts h r) in (Some c, h1))
      | None \<Rightarrow> (None, h))"

text \<open>\<^verbatim>\<open>list.insert\<close> and \<^verbatim>\<open>list.pop\<close> change the list object in place.\<close>

definition list_insert :: "heap \<Rightarrow> ref \<Rightarrow> nat \<Rightarrow> ref \<Rightarrow> heap" where
  "list_insert h l i x = set_list h l (take i (lists h l) @ x # drop i (lists h l))"

definition list_pop :: "heap \<Rightarrow> ref \<Rightarrow> nat \<Rightarrow> heap" where
  "list_pop h l i = set_list h l (take i (lists h l) @ drop (Suc i) (lists h l))"

text \<open>\<^verbatim>\<open>path['distance_nm'] = self._calculate_distance(path['points'])\<close>: when the
  computation raises, the exception leaves the method with the list already changed.\<close>

definition recompute_distance :: "heap \<Rightarrow> ref \<Rightarrow> (py_error + bool) \<times> heap" where
  "recompute_distance h r =
     (case calculate_distance (read_points h (points (dicts h r))) of
        Inl e \<Rightarrow> (Inl e, h)
      | Inr d \<Rightarrow> (Inr True, set_dict h r ((dicts h r)\<lparr>distance_nm := d\<rparr>)))"

definition insert_waypoint ::
  "heap \<Rightarrow> PathManager \<Rightarrow> string \<Rightarrow> int \<Rightarrow> ref \<Rightarrow> (py_error + bool) \<times> heap" where
  "insert_waypoint h pm pid insert_index new_point =
     (case lookup_path pm pid of
        None \<Rightarrow> (Inr False, h)
      | Some r \<Rightarrow>
          (let l = points (dicts h r)
           in if 0 \<le> insert_index \<and> insert_index \<le> int (length (lists h l))
              then recompute_distance (list_insert h l (nat insert_index) new_point) r
              else (Inr False, h)))"

definition remove_waypoint ::
  "heap \<Rightarrow> PathManager \<Rightarrow> string \<Rightarrow> int \<Rightarrow> (py_error + bool) \<times> heap" where
  "remove_waypoint h pm pid waypoint_index =
     (case lookup_path pm pid of
        None \<Rightarrow> (Inr False, h)
      | Some r \<Rightarrow>
          (let l = points (dicts h r)
           in if 2 < length (lists h l) \<and> 0 \<le> waypoint_index
                 \<and> waypoint_index < int (length (lists h l))
              then recompute_distance (list_pop h l (nat waypoint_index)) r
              else (Inr False, h)))"

definition delete_path :: "PathManager \<Rightarrow> string \<Rightarrow> ref option \<times> PathManager" where
  "delete_path pm pid =
     (case map_of (aircraft_paths pm) pid of
        Some r \<Rightarrow> (Some r, pm\<lparr>aircraft_paths := AList.delete pid (aircraft_paths pm)\<rparr>)
      | None \<Rightarrow>
          (case map_of (track_paths pm) pid of
             Some r \<Rightarrow> (Some r, pm\<lparr>track_paths := AList.delete pid (track_paths pm)\<rparr>)
           | None \<Rightarrow> (None, pm)))"

subsection \<open>The tick\<close>

record position_update =
  upd_id :: string
  upd_type :: string
  upd_lat :: real
  upd_lon :: real
  upd_alt :: real
  upd_speed :: real
  upd_heading :: real

text \<open>The body of both loops of \<^verbatim>\<open>update_positions\<close> on one path: the new store
  and the entry to append, if any. An exception of the interpolation ends the method.\<close>

definition advance_path ::
  "string \<Rightarrow> real \<Rightarrow> heap \<Rightarrow> string \<Rightarrow> ref \<Rightarrow> py_error + (heap \<times> position_update list)" where
  "advance_path ty delta_time h pid r =
     (let path = dicts h r;
          speed_nm_per_sec = speed_kts path / 3600;
          distance_traveled = speed_nm_per_sec * delta_time
      in if 0 < distance_nm path then
           (let position_delta = distance_traveled / distance_nm path;
                moved = current_position path + position_delta;
                wrapped = (if 1 \<le> moved then py_mod moved 1 else moved);
                h1 = set_dict h r (path\<lparr>current_position := wrapped\<rparr>);
                pts = read_points h1 (points path)
            in (case interpolate_path pts wrapped of
                  Inl e \<Rightarrow> Inl e
                | Inr current_point \<Rightarrow>
                    (case calculate_heading pts wrapped of
                       Inl e \<Rightarrow> Inl e
                     | Inr heading \<Rightarrow>
                         Inr (h1, [\<lparr>upd_id = pid, upd_type = ty,
                                    upd_lat = fst current_point, upd_lon = snd current_point,
                                    upd_alt = altitude_ft path, upd_speed = speed_kts path,
                                    upd_heading = heading\<rparr>]))))
         else Inr (h, []))"

fun advance_loop ::
  "string \<Rightarrow> real \<Rightarrow> (string \<times> ref) list \<Rightarrow> heap \<Rightarrow> position_update list
     \<Rightarrow> py_error + (heap \<times> position_update list)" where
  "advance_loop ty delta_time [] h updates = Inr (h, updates)"
| "advance_loop ty delta_time ((pid, r) # rest) h updates =
     (case advance_path ty delta_time h pid r of
        Inl e \<Rightarrow> Inl e
      | Inr (h1, us) \<Rightarrow> advance_loop ty delta_time rest h1 (updates @ us))"

definition update_positions ::
  "heap \<Rightarrow> PathManager \<Rightarrow> real \<Rightarrow> py_error + (heap \<times> position_update list)" where
  "update_positions h pm delta_time =
     (case advance_loop ''aircraft'' delta_time (aircraft_paths pm) h [] of
        Inl e \<Rightarrow> Inl e
      | Inr (h1, updates) \<Rightarrow> advance_loop ''track'' delta_time (track_paths pm) h1 updates)"

section \<open>TacticalDrawingTab: the edit session\<close>

text \<open>
  Of the widget, the model keeps the manager, the two fields of the edit session, the
  selection of the path list (the identifier parsed from the selected item, if any),
  whether the edit and delete buttons are enabled, and the signals and message boxes
  the methods emit, in order. \<^verbatim>\<open>original_path_data\<close> is a dict that only the widget
  refers to, so it is a value; its list of waypoints is an object of the store.
\<close>

datatype event =
  Warning string
| Information string
| StartPathEditing string
| StopPathEditing
| RestorePath string "waypoint list"
| PathDeleted string

record TacticalDrawingTab =
  path_manager :: PathManager
  editing_path_id :: "string option"
  original_path_data :: "path_data option"
  selected :: "string option"
  btn_edit_path_enabled :: bool
  btn_delete_path_enabled :: bool
  emitted :: "event list"

definition init_TacticalDrawingTab :: TacticalDrawingTab where
  "init_TacticalDrawingTab =
     \<lparr>path_manager = init_PathManager, editing_path_id = None, original_path_data = None,
      selected = None, btn_edit_path_enabled = False, btn_delete_path_enabled = False,
      emitted = []\<rparr>"

definition emit :: "TacticalDrawingTab \<Rightarrow> event \<Rightarrow> TacticalDrawingTab" where
  "emit t e = t\<lparr>emitted := emitted t @ [e]\<rparr>"

definition on_path_selection_changed :: "TacticalDrawingTab \<Rightarrow> TacticalDrawingTab" where
  "on_path_selection_changed t =
     (let has_selection = (selected t \<noteq> None)
      in t\<lparr>btn_edit_path_enabled := (has_selection \<and> editing_path_id t = None),
           btn_delete_path_enabled := (has_selection \<and> editing_path_id t = None)\<rparr>)"

text \<open>The operator selects an item of the list, or clears the selection.\<close>

definition select_path :: "TacticalDrawingTab \<Rightarrow> string option \<Rightarrow> TacticalDrawingTab" where
  "select_path t sel = on_path_selection_changed (t\<lparr>selected := sel\<rparr>)"

definition start_path_editing :: "heap \<Rightarrow> TacticalDrawingTab \<Rightarrow> heap \<times> TacticalDrawingTab" where
  "start_path_editing h t =
     (case selected t of
        None \<Rightarrow> (h, t)
      | Some pid \<Rightarrow>
          (case get_path_by_id h (path_manager t) pid of
             (None, h1) \<Rightarrow> (h1, emit t (Warning ''Path not found.''))
           | (Some c, h1) \<Rightarrow>
               (let path_data = dicts h1 c;
                    (l, h2) = deep_copy_points h1 (points path_data);
                    t1 = t\<lparr>editing_path_id := Some pid,
                           original_path_data := Some (path_data\<lparr>points := l\<rparr>),
                           btn_edit_path_enabled := False,
                           btn_delete_path_enabled := False\<rparr>
                in (h2, emit t1 (StartPathEditing pid)))))"

text \<open>The five assignments of \<^verbatim>\<open>cancel_path_editing\<close> to the dict of the live
  path.\<close>

definition restore_path :: "heap \<Rightarrow> ref \<Rightarrow> path_data \<Rightarrow> heap" where
  "restore_path h r original =
     (let (l, h1) = deep_copy_points h (points original)
      in set_dict h1 r ((dicts h1 r)
           \<lparr>points := l,
            distance_nm := distance_nm original,
            speed_kts := speed_kts original,
            altitude_ft := altitude_ft original,
            current_position := current_position original\<rparr>))"

text \<open>\<^verbatim>\<open>if not self.editing_path_id or not self.original_path_data: return\<close>:
  \<^verbatim>\<open>None\<close> and the empty string are both false.\<close>

definition cancel_path_editing :: "heap \<Rightarrow> TacticalDrawingTab \<Rightarrow> heap \<times> TacticalDrawingTab" where
  "cancel_path_editing h t =
     (case (editing_path_id t, original_path_data t) of
        (Some pid, Some original) \<Rightarrow>
          if pid = [] then (h, t)
          else
            (let h1 = (case lookup_path (path_manager t) pid of
                         Some r \<Rightarrow> restore_path h r original
                       | None \<Rightarrow> h);
                 t1 = emit t StopPathEditing;
                 t2 = emit t1 (RestorePath pid (read_points h1 (points original)));
                 t3 = t2\<lparr>editing_path_id := None, original_path_data := None\<rparr>
             in (h1, on_path_selection_changed t3))
      | _ \<Rightarrow> (h, t))"

text \<open>\<^verbatim>\<open>delete_selected_path\<close>; \<open>reply\<close> tells whether the operator confirmed. Taking
  the item out of the list and clearing the selection leaves nothing selected.\<close>

definition delete_selected_path :: "TacticalDrawingTab \<Rightarrow> bool \<Rightarrow> TacticalDrawingTab" where
  "delete_selected_path t reply =
     (case selected t of
        None \<Rightarrow> t
      | Some pid \<Rightarrow>
          if \<not> reply then t
          else
            (case delete_path (path_manager t) pid of
               (None, pm1) \<Rightarrow> emit (t\<lparr>path_manager := pm1\<rparr>) (Warning ''Failed to delete path from data.'')
             | (Some deleted, pm1) \<Rightarrow>
                 (let t1 = emit (t\<lparr>path_manager := pm1\<rparr>) (PathDeleted pid);
                      t2 = select_path t1 None
                  in emit t2 (Information (''Path '' @ pid @ '' deleted successfully!'')))))"

text \<open>A button that is not enabled does not call its slot.\<close>

definition click_edit_path :: "heap \<Rightarrow> TacticalDrawingTab \<Rightarrow> heap \<times> TacticalDrawingTab" where
  "click_edit_path h t = (if btn_edit_path_enabled t then start_path_editing h t else (h, t))"

definition click_delete_path :: "TacticalDrawingTab \<Rightarrow> bool \<Rightarrow> TacticalDrawingTab" where
  "click_delete_path t reply = (if btn_delete_path_enabled t then delete_selected_path t reply else t)"

subsection \<open>Edits of the session\<close>

text \<open>\<^verbatim>\<open>path['points'][index] = [lat, lon]\<close> followed by the new distance; the handler
  catches every exception and goes on.\<close>

definition move_waypoint :: "heap \<Rightarrow> ref \<Rightarrow> int \<Rightarrow> real \<Rightarrow> real \<Rightarrow> heap" where
  "move_waypoint h r index lat lon =
     (let l = points (dicts h r)
      in if 0 \<le> index \<and> index < int (length (lists h l)) then
           (let (c, h1) = new_cell h (lat, lon);
                h2 = set_list h1 l ((lists h1 l)[nat index := c])
            in snd (recompute_distance h2 r))
         else h)"

definition on_waypoint_moved ::
  "heap \<Rightarrow> TacticalDrawingTab \<Rightarrow> string \<Rightarrow> int \<Rightarrow> real \<Rightarrow> real \<Rightarrow> heap \<times> TacticalDrawingTab" where
  "on_waypoint_moved h t pid index lat lon =
     (if Some pid = editing_path_id t then
        (case lookup_path (path_manager t) pid of
           Some r \<Rightarrow> (move_waypoint h r index lat lon, t)
         | None \<Rightarrow> (h, t))
      else (h, t))"

definition on_waypoint_inserted ::
  "heap \<Rightarrow> TacticalDrawingTab \<Rightarrow> string \<Rightarrow> int \<Rightarrow> real \<Rightarrow> real \<Rightarrow> heap \<times> TacticalDrawingTab" where
  "on_waypoint_inserted h t pid insert_index lat lon =
     (if Some pid = editing_path_id t then
        (let (c, h1) = new_cell h (lat, lon)
         in (snd (insert_waypoint h1 (path_manager t) pid insert_index c), t))
      else (h, t))"

definition on_waypoint_deleted ::
  "heap \<Rightarrow> TacticalDrawingTab \<Rightarrow> string \<Rightarrow> int \<Rightarrow> heap \<times> TacticalDrawingTab" where
  "on_waypoint_deleted h t pid index =
     (if Some pid = editing_path_id t then
        (case remove_waypoint h (path_manager t) pid index of
           (Inr False, h1) \<Rightarrow>
             (h1, emit t (Warning ''Cannot delete waypoint. Minimum 2 waypoints required.''))
         | (_, h1) \<Rightarrow> (h1, t))
      else (h, t))"

datatype edit =
  Move string int real real
| Insert string int real real
| Delete string int

fun apply_edit :: "heap \<times> TacticalDrawingTab \<Rightarrow> edit \<Rightarrow> heap \<times> TacticalDrawingTab" where
  "apply_edit (h, t) (Move pid index lat lon) = on_waypoint_moved h t pid index lat lon"
| "apply_edit (h, t) (Insert pid index lat lon) = on_waypoint_inserted h t pid index lat lon"
| "apply_edit (h, t) (Delete pid index) = on_waypoint_deleted h t pid index"

definition apply_edits :: "heap \<times> TacticalDrawingTab \<Rightarrow> edit list \<Rightarrow> heap \<times> TacticalDrawingTab" where
  "apply_edits st es = foldl apply_edit st es"

text \<open>What a reader of the store sees of a path: its waypoints, distance, speed,
  altitude and progress.\<close>

definition path_view :: "heap \<Rightarrow> ref \<Rightarrow> waypoint list \<times> real \<times> real \<times> real \<times> real" where
  "path_view h r =
     (let d = dicts h r
      in (read_points h (points d), distance_nm d, speed_kts d, altitude_ft d,
          current_position d))"

section \<open>The length of a route\<close>

text \<open>The great-circle distance of two waypoints by the haversine formula, and its sum
  over the consecutive pairs of a route.\<close>

definition great_circle :: "waypoint \<Rightarrow> waypoint \<Rightarrow> real" where
  "great_circle p1 p2 = earth_radius * (2 * arcsin (sqrt (haversine_a p1 p2)))"

fun path_length :: "waypoint list \<Rightarrow> real" where
  "path_length (p1 # p2 # ps) = great_circle p1 p2 + path_length (p2 # ps)"
| "path_length ps = 0"

section \<open>Example states\<close>

text \<open>A caller builds the list object of a route \<^verbatim>\<open>[[lat, lon], ...]\<close>.\<close>

fun new_cells :: "heap \<Rightarrow> waypoint list \<Rightarrow> ref list \<times> heap" where
  "new_cells h [] = ([], h)"
| "new_cells h (p # ps) =
     (let (c, h1) = new_cell h p;
          (cs, h2) = new_cells h1 ps
      in (c # cs, h2))"

definition make_points :: "heap \<Rightarrow> waypoint list \<Rightarrow> ref \<times> heap" where
  "make_points h ps = (let (cs, h1) = new_cells h ps in new_list h1 cs)"

text \<open>An aircraft path of three waypoints and a track of two, created in a new
  manager; the distances are the ones the caller passed.\<close>

definition demo_state :: "heap \<times> PathManager" where
  "demo_state =
     (let (l1, h1) = make_points init_heap [(20, 78), (21, 79), (22, 80)];
          (res1, h2, pm1) =
             add_aircraft_path h1 init_PathManager l1 100 (Some 450) (Some 15000) 0 0 ''t1'';
          (l2, h3) = make_points h2 [(10, 70), (11, 71)];
          (res2, h4, pm2) = add_track_path h3 pm1 l2 50 (Some 400) (Some 9000) 0 0 ''t2''
      in (h4, pm2))"

definition demo_aircraft :: path_data where
  "demo_aircraft =
     \<lparr>path_id = ''AC-0001'', path_type = ''aircraft'', points = 3, distance_nm = 100,
      speed_kts = 450, altitude_ft = 15000, current_position = 0, color = ''green'',
      created = ''t1''\<rparr>"

definition demo_track :: path_data where
  "demo_track =
     \<lparr>path_id = ''TRK-0001'', path_type = ''track'', points = 7, distance_nm = 50,
      speed_kts = 400, altitude_ft = 9000, current_position = 0, color = ''red'',
      created = ''t2''\<rparr>"

text \<open>A list object that holds no waypoint, as a caller may pass it.\<close>

definition empty_route_heap :: heap where
  "empty_route_heap = snd (new_list init_heap [])"

subsection \<open>Auxiliary notions\<close>

text \<open>The dict that a call of \<^verbatim>\<open>add_aircraft_path\<close> or \<^verbatim>\<open>add_track_path\<close> stored.\<close>

definition created_path :: "(string \<times> ref) \<times> heap \<times> PathManager \<Rightarrow> path_data" where
  "created_path res = dicts (fst (snd res)) (snd (fst res))"

subsection \<open>The example session\<close>

text \<open>The widget on the example state with the aircraft path selected, the same after a
  click on the edit button, a second \<^verbatim>\<open>start_path_editing\<close> on the track while
  that session is open, and a confirmed \<^verbatim>\<open>delete_selected_path\<close> during the session.\<close>

definition demo_tab :: TacticalDrawingTab where
  "demo_tab = select_path (init_TacticalDrawingTab\<lparr>path_manager := snd demo_state\<rparr>) (Some ''AC-0001'')"

definition demo_editing :: "heap \<times> TacticalDrawingTab" where
  "demo_editing = click_edit_path (fst demo_state) demo_tab"

definition demo_second_edit :: "heap \<times> TacticalDrawingTab" where
  "demo_second_edit =
     start_path_editing (fst demo_editing) (select_path (snd demo_editing) (Some ''TRK-0001''))"

text \<open>What \<^verbatim>\<open>get_path_by_id\<close> returns for the aircraft path.\<close>

definition demo_copy :: "ref option \<times> heap" where
  "demo_copy = get_path_by_id (fst demo_state) (snd demo_state) ''AC-0001''"

definition demo_delete :: TacticalDrawingTab where
  "demo_delete = delete_selected_path (snd demo_editing) True"

section \<open>What an edit leaves alone\<close>

text \<open>An edit of the path at \<open>r\<close> allocates, changes the list object of that path and
  its distance, and nothing else: \<open>edit_frame\<close> for the store, \<open>same_session\<close> for the
  widget.\<close>

definition edit_frame :: "ref \<Rightarrow> heap \<Rightarrow> heap \<Rightarrow> bool" where
  "edit_frame r h h' \<longleftrightarrow>
     next_ref h \<le> next_ref h'
   \<and> points (dicts h' r) = points (dicts h r)
   \<and> speed_kts (dicts h' r) = speed_kts (dicts h r)
   \<and> altitude_ft (dicts h' r) = altitude_ft (dicts h r)
   \<and> current_position (dicts h' r) = current_position (dicts h r)
   \<and> (\<forall>l. l \<noteq> points (dicts h r) \<longrightarrow> lists h' l = lists h l)
   \<and> (\<forall>c. c < next_ref h \<longrightarrow> cells h' c = cells h c)"

definition same_session :: "TacticalDrawingTab \<Rightarrow> TacticalDrawingTab \<Rightarrow> bool" where
  "same_session t t' \<longleftrightarrow>
     path_manager t' = path_manager t \<and> editing_path_id t' = editing_path_id t
   \<and> original_path_data t' = original_path_data t \<and> selected t' = selected t"

text \<open>Edits of the example session: an insertion, a move and a removal on the path under
  edit, and a removal that names the other path.\<close>

definition demo_edits :: "edit list" where
  "demo_edits = [Insert ''AC-0001'' 1 22 79.5, Move ''AC-0001'' 0 19 77,
                 Delete ''AC-0001'' 2, Delete ''TRK-0001'' 0]"

definition demo_edited :: "heap \<times> TacticalDrawingTab" where
  "demo_edited = apply_edits demo_editing demo_edits"

definition demo_cancelled :: "heap \<times> TacticalDrawingTab" where
  "demo_cancelled = cancel_path_editing (fst demo_edited) (snd demo_edited)"

section \<open>The tick, as the specification words it\<close>

text \<open>A path of positive distance gains \<open>(speed / 3600 * elapsed) / distance\<close> of progress,
  taken modulo 1; any other path stays as it is.\<close>

definition advanced :: "real \<Rightarrow> path_data \<Rightarrow> path_data" where
  "advanced dt p =
     (if 0 < distance_nm p
      then p\<lparr>current_position :=
               frac (current_position p + speed_kts p / 3600 * dt / distance_nm p)\<rparr>
      else p)"

text \<open>Calls of \<^verbatim>\<open>update_positions\<close> one after the other, with the elapsed times of the
  ticks.\<close>

fun run_ticks :: "heap \<Rightarrow> PathManager \<Rightarrow> real list \<Rightarrow> py_error + heap" where
  "run_ticks h pm [] = Inr h"
| "run_ticks h pm (delta_time # rest) =
     (case update_positions h pm delta_time of
        Inl e \<Rightarrow> Inl e
      | Inr (h1, updates) \<Rightarrow> run_ticks h1 pm rest)"

text \<open>Every stored path has a speed that is not negative and a progress from 0 up to,
  but not including, 1.\<close>

definition progress_in_range :: "heap \<Rightarrow> PathManager \<Rightarrow> bool" where
  "progress_in_range h pm \<longleftrightarrow>
     (\<forall>(pid, r)\<in>set (aircraft_paths pm @ track_paths pm).
        0 \<le> speed_kts (dicts h r)
      \<and> 0 \<le> current_position (dicts h r) \<and> current_position (dicts h r) < 1)"

text \<open>The progress of a path and the identifiers of the batch after a tick.\<close>

definition progress_after :: "py_error + (heap \<times> position_update list) \<Rightarrow> ref \<Rightarrow> real option" where
  "progress_after res r =
     (case res of Inl e \<Rightarrow> None | Inr (h', updates) \<Rightarrow> Some (current_position (dicts h' r)))"

definition ids_after :: "py_error + (heap \<times> position_update list) \<Rightarrow> string list option" where
  "ids_after res =
     (case res of Inl e \<Rightarrow> None | Inr (h', updates) \<Rightarrow> Some (map upd_id updates))"

text \<open>A manager holding one aircraft path that was created with the speed -450.\<close>

definition reverse_state :: "real \<Rightarrow> heap \<times> PathManager" where
  "reverse_state distance =
     (let (l, h1) = make_points init_heap [(20, 78), (21, 79), (22, 80)];
          (res, h2, pm) =
             add_aircraft_path h1 init_PathManager l distance (Some (- 450)) (Some 15000) 0 0 ''t1''
      in (h2, pm))"

text \<open>The example state with one more aircraft path, of distance 0.\<close>

definition mixed_state :: "heap \<times> PathManager" where
  "mixed_state =
     (let (l, h1) = make_points (fst demo_state) [(5, 5), (5, 5)];
          (res, h2, pm) =
             add_aircraft_path h1 (snd demo_state) l 0 (Some 500) (Some 20000) 0 0 ''t3''
      in (h2, pm))"

section \<open>Scenario A\<close>

text \<open>The route of the scenario, its great-circle length, and the store after the
  aircraft path was created with a given distance, the speed 450 and the altitude
  15000.\<close>

definition scenario_a_route :: "waypoint list" where
  "scenario_a_route = [(20, 78), (21, 79)]"

definition scenario_a_distance :: real where
  "scenario_a_distance = great_circle (20, 78) (21, 79)"

definition scenario_a_state :: "real \<Rightarrow> heap \<times> PathManager" where
  "scenario_a_state distance =
     (let (l, h1) = make_points init_heap scenario_a_route;
          (res, h2, pm) =
             add_aircraft_path h1 init_PathManager l distance (Some 450) (Some 15000) 0 0 ''t1''
      in (h2, pm))"

text \<open>Two numbers are approximately equal when they differ by at most the tolerance.\<close>

definition approx :: "real \<Rightarrow> real \<Rightarrow> real \<Rightarrow> bool" where
  "approx tolerance x y \<longleftrightarrow> \<bar>x - y\<bar> \<le> tolerance"

section \<open>Properties\<close>

subsection \<open>Formatting and random draws\<close>

lemma format_04d_Suc_0: "format_04d (Suc 0) = ''0001''"
  by code_simp

lemma randint_range: "a \<le> b \<Longrightarrow> a \<le> randint a b r \<and> randint a b r \<le> b"
  unfolding randint_def
  using pos_mod_sign [of "b - a + 1" r] pos_mod_bound [of "b - a + 1" r] by linarith

lemma value_or_random_zero:
  "a \<le> b \<Longrightarrow> real_of_int a \<le> value_or_random (Some 0) a b r
     \<and> value_or_random (Some 0) a b r \<le> real_of_int b"
  using randint_range [of a b r] by (simp add: value_or_random_def)

subsection \<open>The haversine intermediate lies between 0 and 1\<close>

lemma half_angle_sin: "(sin (x / 2))\<^sup>2 = (1 - cos x) / (2::real)"
  using cos_double_sin [of "x / 2"] by simp

lemma sin_sq_le_one: "(sin (x::real))\<^sup>2 \<le> 1"
  using sin_cos_squared_add [of x] zero_le_power2 [of "cos x"] by linarith

lemma haversine_a_range: "0 \<le> haversine_a p1 p2 \<and> haversine_a p1 p2 \<le> 1"
proof -
  define x where "x = radians (fst p1)"
  define y where "y = radians (fst p2)"
  define u where "u = (sin ((radians (snd p2) - radians (snd p1)) / 2))\<^sup>2"
  define A where "A = (sin ((y - x) / 2))\<^sup>2"
  define B where "B = (1 + cos (x + y)) / 2"
  have a: "haversine_a p1 p2 = A + cos x * cos y * u"
    by (simp add: haversine_a_def Let_def x_def y_def u_def A_def)
  have u: "0 \<le> u" "u \<le> 1"
    by (simp_all add: u_def sin_sq_le_one)
  have A: "0 \<le> A" "A \<le> 1"
    by (simp_all add: A_def sin_sq_le_one)
  have B: "0 \<le> B" "B \<le> 1"
  proof -
    have "0 \<le> 1 + cos (x + y)"
      using cos_ge_minus_one [of "x + y"] by linarith
    then show "0 \<le> B" "B \<le> 1" by (simp_all add: B_def)
  qed
  have "A + cos x * cos y = B"
    unfolding A_def B_def half_angle_sin cos_diff cos_add
    by (simp add: field_simps)
  then have cc: "cos x * cos y = B - A" by linarith
  have eq: "haversine_a p1 p2 = A * (1 - u) + B * u"
    unfolding a cc by (simp add: algebra_simps)
  have "0 \<le> A * (1 - u) + B * u"
    using u A B by simp
  moreover have "A * (1 - u) + B * u \<le> 1 * (1 - u) + 1 * u"
    using u A B by (intro add_mono mult_right_mono) simp_all
  ultimately show ?thesis
    using eq by simp
qed

lemma central_angle_total:
  "0 \<le> a \<Longrightarrow> a \<le> 1 \<Longrightarrow> central_angle a = Inr (2 * arcsin (sqrt a))"
proof -
  assume a: "0 \<le> a" "a \<le> 1"
  then have "0 \<le> sqrt a" "sqrt a \<le> 1" by simp_all
  then have "\<not> (sqrt a < - 1 \<or> 1 < sqrt a)" by linarith
  with a show ?thesis
    by (simp add: central_angle_def py_sqrt_def py_asin_def)
qed

lemma segment_distance_total: "segment_distance p1 p2 = Inr (great_circle p1 p2)"
  using haversine_a_range [of p1 p2]
  by (simp add: segment_distance_def great_circle_def central_angle_total)

lemma distance_loop_total: "distance_loop ps acc = Inr (acc + path_length ps)"
  by (induction ps arbitrary: acc rule: path_length.induct)
     (simp_all add: segment_distance_total)

lemma calculate_distance_total: "calculate_distance ps = Inr (path_length ps)"
proof (cases ps)
  case Nil
  then show ?thesis by (simp add: calculate_distance_def)
next
  case (Cons p qs)
  then show ?thesis
    by (cases qs) (simp_all add: calculate_distance_def distance_loop_total)
qed

lemma calculate_path_distance_eq: "calculate_path_distance ps = calculate_distance ps"
  by (simp add: calculate_path_distance_def calculate_distance_def)

lemma path_length_short: "length ps < 2 \<Longrightarrow> path_length ps = 0"
  by (cases ps rule: path_length.cases) simp_all

lemma recompute_distance_total:
  "recompute_distance h r =
     (Inr True,
      set_dict h r ((dicts h r)\<lparr>distance_nm := path_length (read_points h (points (dicts h r)))\<rparr>))"
  by (simp add: recompute_distance_def calculate_distance_total)

subsection \<open>The example state\<close>

lemma demo_state_eq:
  "demo_state =
     (\<lparr>dicts = (dicts init_heap)(4 := demo_aircraft, 8 := demo_track),
       lists = (lists init_heap)(3 := [0, 1, 2], 7 := [5, 6]),
       cells = (cells init_heap)
         (0 := (20, 78), 1 := (21, 79), 2 := (22, 80), 5 := (10, 70), 6 := (11, 71)),
       next_ref = 9\<rparr>,
      \<lparr>aircraft_paths = [(''AC-0001'', 4)], track_paths = [(''TRK-0001'', 8)],
       next_aircraft_id = 2, next_track_id = 2\<rparr>)"
  by (simp add: demo_state_def make_points_def new_cell_def new_list_def new_dict_def
      add_aircraft_path_def add_track_path_def init_heap_def init_PathManager_def
      value_or_random_def format_04d_Suc_0 demo_aircraft_def demo_track_def Let_def
      eval_nat_numeral)

lemma demo_lookup:
  "lookup_path (snd demo_state) ''AC-0001'' = Some 4"
  "lookup_path (snd demo_state) ''TRK-0001'' = Some 8"
  "lookup_path (snd demo_state) ''AC-0009'' = None"
  by (simp_all add: demo_state_eq lookup_path_def)

lemma demo_objects:
  "dicts (fst demo_state) 4 = demo_aircraft"
  "dicts (fst demo_state) 8 = demo_track"
  "lists (fst demo_state) 3 = [0, 1, 2]"
  "lists (fst demo_state) 7 = [5, 6]"
  "next_ref (fst demo_state) = 9"
  by (simp_all add: demo_state_eq)

subsection \<open>Removing a waypoint\<close>

lemma remove_waypoint_unknown:
  "lookup_path pm pid = None \<Longrightarrow> remove_waypoint h pm pid i = (Inr False, h)"
  by (simp add: remove_waypoint_def)

lemma remove_waypoint_refused:
  "lookup_path pm pid = Some r \<Longrightarrow>
   length (lists h (points (dicts h r))) \<le> 2 \<or> i < 0
     \<or> int (length (lists h (points (dicts h r)))) \<le> i \<Longrightarrow>
   remove_waypoint h pm pid i = (Inr False, h)"
  by (auto simp add: remove_waypoint_def Let_def)

lemma remove_waypoint_done:
  assumes "lookup_path pm pid = Some r"
    and "2 < length (lists h (points (dicts h r)))"
    and "0 \<le> i" and "i < int (length (lists h (points (dicts h r))))"
  shows "\<exists>h'. remove_waypoint h pm pid i = (Inr True, h')
      \<and> read_points h' (points (dicts h' r))
          = take (nat i) (read_points h (points (dicts h r)))
            @ drop (Suc (nat i)) (read_points h (points (dicts h r)))
      \<and> calculate_distance (read_points h' (points (dicts h' r)))
          = Inr (distance_nm (dicts h' r))"
  using assms
  by (simp add: remove_waypoint_def Let_def recompute_distance_total list_pop_def set_list_def
      set_dict_def read_points_def calculate_distance_total take_map drop_map)

text \<open>
  C4. \<^verbatim>\<open>remove_waypoint\<close> returns \<^verbatim>\<open>False\<close> and leaves the whole store as it was when
  the identifier is unknown, when the path has two waypoints or fewer (so every call on
  a path of exactly two waypoints fails), and when the index is negative or not below the
  number of waypoints. Otherwise it returns \<^verbatim>\<open>True\<close>, the waypoint at the index is gone
  and the others keep their order, and the stored distance is the distance computed over
  the new sequence.
\<close>

theorem C4_remove_waypoint:
  "(lookup_path pm pid = None \<longrightarrow> remove_waypoint h pm pid i = (Inr False, h))
 \<and> (lookup_path pm pid = Some r \<and> length (lists h (points (dicts h r))) \<le> 2
      \<longrightarrow> remove_waypoint h pm pid i = (Inr False, h))
 \<and> (lookup_path pm pid = Some r \<and> (i < 0 \<or> int (length (lists h (points (dicts h r)))) \<le> i)
      \<longrightarrow> remove_waypoint h pm pid i = (Inr False, h))
 \<and> (lookup_path pm pid = Some r \<and> 2 < length (lists h (points (dicts h r)))
        \<and> 0 \<le> i \<and> i < int (length (lists h (points (dicts h r))))
      \<longrightarrow> (\<exists>h'. remove_waypoint h pm pid i = (Inr True, h')
            \<and> read_points h' (points (dicts h' r))
                = take (nat i) (read_points h (points (dicts h r)))
                  @ drop (Suc (nat i)) (read_points h (points (dicts h r)))
            \<and> calculate_distance (read_points h' (points (dicts h' r)))
                = Inr (distance_nm (dicts h' r))))"
  using remove_waypoint_unknown [of pm pid h i] remove_waypoint_refused [of pm pid r h i]
    remove_waypoint_done [of pm pid r h i]
  by blast

theorem C4_remove_waypoint_witness:
  "remove_waypoint (fst demo_state) (snd demo_state) ''AC-0009'' 0 = (Inr False, fst demo_state)
 \<and> remove_waypoint (fst demo_state) (snd demo_state) ''TRK-0001'' 0 = (Inr False, fst demo_state)
 \<and> remove_waypoint (fst demo_state) (snd demo_state) ''AC-0001'' 3 = (Inr False, fst demo_state)
 \<and> (\<exists>h'. remove_waypoint (fst demo_state) (snd demo_state) ''AC-0001'' 1 = (Inr True, h')
        \<and> read_points h' (points (dicts h' 4)) = [(20, 78), (22, 80)]
        \<and> calculate_distance [(20, 78), (22, 80)] = Inr (distance_nm (dicts h' 4)))"
  using C4_remove_waypoint [of "snd demo_state" "''AC-0009''" "fst demo_state" 0 0]
    C4_remove_waypoint [of "snd demo_state" "''TRK-0001''" "fst demo_state" 0 8]
    C4_remove_waypoint [of "snd demo_state" "''AC-0001''" "fst demo_state" 3 4]
    C4_remove_waypoint [of "snd demo_state" "''AC-0001''" "fst demo_state" 1 4]
  by (simp add: demo_lookup demo_objects demo_aircraft_def demo_track_def read_points_def)
     (auto simp add: demo_state_eq)

subsection \<open>Creating a path\<close>

lemma randint_onto: "a \<le> v \<Longrightarrow> v \<le> b \<Longrightarrow> randint a b (v - a) = v"
  by (simp add: randint_def)

lemma value_or_random_draws:
  "value_or_random (Some 0) a b r = of_int (randint a b r)"
  "value_or_random None a b r = of_int (randint a b r)"
  by (simp_all add: value_or_random_def)

text \<open>
  C10. A speed or an altitude of 0 passed to \<^verbatim>\<open>add_aircraft_path\<close> or
  \<^verbatim>\<open>add_track_path\<close> is not stored: the call does exactly what it does when the argument
  is left out, and the stored value is the draw \<^verbatim>\<open>random.randint\<close> makes from the range
  of the kind (400 to 550 kt and 10000 to 35000 ft for an aircraft, 350 to 500 kt and
  5000 to 20000 ft for a track). A draw lies in its range, and every value of the range
  can be drawn. That the draws are uniformly distributed is a property of the generator,
  which the model takes as an input.
\<close>

theorem C10_zero_is_treated_as_absent:
  "add_aircraft_path h pm pts d (Some 0) alt rs ra now
     = add_aircraft_path h pm pts d None alt rs ra now
 \<and> add_aircraft_path h pm pts d spd (Some 0) rs ra now
     = add_aircraft_path h pm pts d spd None rs ra now
 \<and> add_track_path h pm pts d (Some 0) alt rs ra now
     = add_track_path h pm pts d None alt rs ra now
 \<and> add_track_path h pm pts d spd (Some 0) rs ra now
     = add_track_path h pm pts d spd None rs ra now
 \<and> speed_kts (created_path (add_aircraft_path h pm pts d (Some 0) alt rs ra now))
     = of_int (randint 400 550 rs)
 \<and> altitude_ft (created_path (add_aircraft_path h pm pts d spd (Some 0) rs ra now))
     = of_int (randint 10000 35000 ra)
 \<and> speed_kts (created_path (add_track_path h pm pts d (Some 0) alt rs ra now))
     = of_int (randint 350 500 rs)
 \<and> altitude_ft (created_path (add_track_path h pm pts d spd (Some 0) rs ra now))
     = of_int (randint 5000 20000 ra)
 \<and> 400 \<le> speed_kts (created_path (add_aircraft_path h pm pts d (Some 0) alt rs ra now))
 \<and> speed_kts (created_path (add_aircraft_path h pm pts d (Some 0) alt rs ra now)) \<le> 550
 \<and> 10000 \<le> altitude_ft (created_path (add_aircraft_path h pm pts d spd (Some 0) rs ra now))
 \<and> altitude_ft (created_path (add_aircraft_path h pm pts d spd (Some 0) rs ra now)) \<le> 35000
 \<and> 350 \<le> speed_kts (created_path (add_track_path h pm pts d (Some 0) alt rs ra now))
 \<and> speed_kts (created_path (add_track_path h pm pts d (Some 0) alt rs ra now)) \<le> 500
 \<and> 5000 \<le> altitude_ft (created_path (add_track_path h pm pts d spd (Some 0) rs ra now))
 \<and> altitude_ft (created_path (add_track_path h pm pts d spd (Some 0) rs ra now)) \<le> 20000
 \<and> (a \<le> b \<longrightarrow> a \<le> randint a b r \<and> randint a b r \<le> b)
 \<and> (a \<le> v \<and> v \<le> b \<longrightarrow> randint a b (v - a) = v)"
  using value_or_random_zero [of 400 550 rs] value_or_random_zero [of 10000 35000 ra]
    value_or_random_zero [of 350 500 rs] value_or_random_zero [of 5000 20000 ra]
    randint_range [of a b r] randint_onto [of a v b]
  by (simp add: add_aircraft_path_def add_track_path_def created_path_def new_dict_def Let_def
      value_or_random_draws)

theorem C10_zero_is_treated_as_absent_witness:
  "speed_kts (created_path
      (add_aircraft_path empty_route_heap init_PathManager 0 0 (Some 0) (Some 0) 37 1234 [])) = 437
 \<and> altitude_ft (created_path
      (add_aircraft_path empty_route_heap init_PathManager 0 0 (Some 0) (Some 0) 37 1234 [])) = 11234
 \<and> speed_kts (created_path
      (add_track_path empty_route_heap init_PathManager 0 0 (Some 0) (Some 0) 37 1234 [])) = 387
 \<and> altitude_ft (created_path
      (add_track_path empty_route_heap init_PathManager 0 0 (Some 0) (Some 0) 37 1234 [])) = 6234
 \<and> (400::int) \<le> 550 \<and> 400 \<le> randint 400 550 1000 \<and> randint 400 550 1000 \<le> 550
 \<and> (400::int) \<le> 450 \<and> (450::int) \<le> 550 \<and> randint 400 550 50 = 450"
proof -
  note c = C10_zero_is_treated_as_absent [where h = empty_route_heap and pm = init_PathManager and pts = 0
      and d = 0 and spd = "Some 0" and alt = "Some 0" and rs = 37 and ra = 1234 and now = "[]"
      and a = 400 and b = 550 and r = 1000 and v = 450]
  have stored: "speed_kts (created_path
        (add_aircraft_path empty_route_heap init_PathManager 0 0 (Some 0) (Some 0) 37 1234 []))
      = of_int (randint 400 550 37)"
    "altitude_ft (created_path
        (add_aircraft_path empty_route_heap init_PathManager 0 0 (Some 0) (Some 0) 37 1234 []))
      = of_int (randint 10000 35000 1234)"
    "speed_kts (created_path
        (add_track_path empty_route_heap init_PathManager 0 0 (Some 0) (Some 0) 37 1234 []))
      = of_int (randint 350 500 37)"
    "altitude_ft (created_path
        (add_track_path empty_route_heap init_PathManager 0 0 (Some 0) (Some 0) 37 1234 []))
      = of_int (randint 5000 20000 1234)"
    using c by blast+
  have draws: "(400::int) \<le> 550 \<longrightarrow> 400 \<le> randint 400 550 1000 \<and> randint 400 550 1000 \<le> 550"
    "(400::int) \<le> 450 \<and> (450::int) \<le> 550 \<longrightarrow> randint 400 550 (450 - 400) = 450"
    using c by blast+
  have drawn: "randint 400 550 37 = 437" "randint 10000 35000 1234 = 11234"
    "randint 350 500 37 = 387" "randint 5000 20000 1234 = 6234"
    by (simp_all add: randint_def)
  show ?thesis
    using draws by (simp add: stored drawn)
qed

text \<open>
  C5 as stated fails: \<^verbatim>\<open>add_aircraft_path\<close> and \<^verbatim>\<open>add_track_path\<close> called with a list
  of no waypoint create the path, and the identifier is used up.
\<close>

theorem C5_short_route_counterexample:
  "read_points empty_route_heap 0 = []
 \<and> snd (snd (add_aircraft_path empty_route_heap init_PathManager 0 0 None None 0 0 []))
     = \<lparr>aircraft_paths = [(''AC-0001'', 1)], track_paths = [],
        next_aircraft_id = 2, next_track_id = 1\<rparr>
 \<and> snd (snd (add_track_path empty_route_heap init_PathManager 0 0 None None 0 0 []))
     = \<lparr>aircraft_paths = [], track_paths = [(''TRK-0001'', 1)],
        next_aircraft_id = 1, next_track_id = 2\<rparr>
 \<and> snd (snd (add_aircraft_path empty_route_heap init_PathManager 0 0 None None 0 0 []))
     \<noteq> init_PathManager"
  by (simp add: empty_route_heap_def new_list_def init_heap_def read_points_def
      add_aircraft_path_def add_track_path_def new_dict_def init_PathManager_def Let_def
      format_04d_Suc_0)

text \<open>
  C5 as amended. Creation never fails and does not look at the number of waypoints: for
  every list object, whatever its length, the call stores a new dict under the next
  identifier of the kind, advances the counter of that kind by one, keeps the caller's
  list object as the waypoints of the path, and leaves the other kind alone.
\<close>

theorem C5_creation_ignores_length:
  "(case add_aircraft_path h pm pts d spd alt rs ra now of
      ((pid, r), h1, pm1) \<Rightarrow>
        pid = ''AC-'' @ format_04d (next_aircraft_id pm)
      \<and> map_of (aircraft_paths pm1) pid = Some r
      \<and> points (dicts h1 r) = pts
      \<and> read_points h1 pts = read_points h pts
      \<and> next_aircraft_id pm1 = next_aircraft_id pm + 1
      \<and> track_paths pm1 = track_paths pm \<and> next_track_id pm1 = next_track_id pm)
 \<and> (case add_track_path h pm pts d spd alt rs ra now of
      ((pid, r), h1, pm1) \<Rightarrow>
        pid = ''TRK-'' @ format_04d (next_track_id pm)
      \<and> map_of (track_paths pm1) pid = Some r
      \<and> points (dicts h1 r) = pts
      \<and> read_points h1 pts = read_points h pts
      \<and> next_track_id pm1 = next_track_id pm + 1
      \<and> aircraft_paths pm1 = aircraft_paths pm \<and> next_aircraft_id pm1 = next_aircraft_id pm)"
  by (simp add: add_aircraft_path_def add_track_path_def new_dict_def Let_def read_points_def
      update_conv')

subsection \<open>The example session\<close>

lemma demo_tab_eq:
  "demo_tab = \<lparr>path_manager = snd demo_state, editing_path_id = None, original_path_data = None,
      selected = Some ''AC-0001'', btn_edit_path_enabled = True, btn_delete_path_enabled = True,
      emitted = []\<rparr>"
  by (simp add: demo_tab_def select_path_def on_path_selection_changed_def
      init_TacticalDrawingTab_def)

lemma demo_editing_eq:
  "demo_editing =
     (\<lparr>dicts = (dicts init_heap)(4 := demo_aircraft, 8 := demo_track, 9 := demo_aircraft),
       lists = (lists init_heap)(3 := [0, 1, 2], 7 := [5, 6], 13 := [10, 11, 12]),
       cells = (cells init_heap)
         (0 := (20, 78), 1 := (21, 79), 2 := (22, 80), 5 := (10, 70), 6 := (11, 71),
          10 := (20, 78), 11 := (21, 79), 12 := (22, 80)),
       next_ref = 14\<rparr>,
      \<lparr>path_manager = snd demo_state, editing_path_id = Some ''AC-0001'',
       original_path_data = Some (demo_aircraft\<lparr>points := 13\<rparr>),
       selected = Some ''AC-0001'', btn_edit_path_enabled = False,
       btn_delete_path_enabled = False, emitted = [StartPathEditing ''AC-0001'']\<rparr>)"
  apply (simp add: demo_editing_def click_edit_path_def demo_tab_eq start_path_editing_def
      get_path_by_id_def demo_lookup)
  apply (simp add: demo_state_eq new_dict_def deep_copy_points_def new_list_def new_cell_def
      emit_def Let_def demo_aircraft_def init_heap_def eval_nat_numeral)
  done

lemma demo_copy_eq:
  "demo_copy = (Some 9, (fst demo_state)\<lparr>dicts := (dicts (fst demo_state))(9 := demo_aircraft), next_ref := 10\<rparr>)"
  by (simp add: demo_copy_def get_path_by_id_def demo_lookup new_dict_def demo_objects)

subsection \<open>Reading the store\<close>

text \<open>
  C8 says that what \<^verbatim>\<open>get_all_paths\<close> and \<^verbatim>\<open>get_path_by_id\<close> return is independent of
  the store. \<^verbatim>\<open>get_path_by_id\<close> does return absent for an unknown identifier, but the
  copies are shallow. On the example state the copy of the aircraft path is the new dict
  9, its waypoints are the list object of the stored dict 4, and a \<^verbatim>\<open>pop(0)\<close> on the
  waypoints of the copy leaves the stored path with two waypoints. \<^verbatim>\<open>get_all_paths\<close>
  returns a new mapping whose values are the stored dicts themselves.
\<close>

theorem C8_copies_are_shallow:
  "fst demo_copy = Some 9
 \<and> points (dicts (snd demo_copy) 9) = points (dicts (snd demo_copy) 4)
 \<and> read_points (snd demo_copy) (points (dicts (snd demo_copy) 4)) = [(20, 78), (21, 79), (22, 80)]
 \<and> read_points (list_pop (snd demo_copy) (points (dicts (snd demo_copy) 9)) 0)
      (points (dicts (list_pop (snd demo_copy) (points (dicts (snd demo_copy) 9)) 0) 4))
     = [(21, 79), (22, 80)]
 \<and> get_all_paths (snd demo_state) = [(''AC-0001'', 4), (''TRK-0001'', 8)]
 \<and> lookup_path (snd demo_state) ''AC-0001'' = Some 4
 \<and> get_path_by_id (fst demo_state) (snd demo_state) ''AC-0009'' = (None, fst demo_state)"
  by (simp add: demo_copy_eq demo_lookup get_path_by_id_def)
     (simp add: demo_state_eq demo_aircraft_def read_points_def list_pop_def set_list_def
       get_all_paths_def dict_update_def)

subsection \<open>Beginning an edit during a session\<close>

text \<open>
  C6 as stated fails: \<^verbatim>\<open>start_path_editing\<close> called on the track while the session
  on the aircraft path is open raises no error, and puts the track and a snapshot of the
  track in the place of the session's target and snapshot.
\<close>

theorem C6_second_begin_counterexample:
  "editing_path_id (snd demo_editing) = Some ''AC-0001''
 \<and> original_path_data (snd demo_editing) = Some (demo_aircraft\<lparr>points := 13\<rparr>)
 \<and> editing_path_id (snd demo_second_edit) = Some ''TRK-0001''
 \<and> original_path_data (snd demo_second_edit) = Some (demo_track\<lparr>points := 17\<rparr>)
 \<and> emitted (snd demo_second_edit) = [StartPathEditing ''AC-0001'', StartPathEditing ''TRK-0001'']"
  apply (simp add: demo_second_edit_def demo_editing_eq select_path_def
      on_path_selection_changed_def start_path_editing_def get_path_by_id_def demo_lookup)
  apply (simp add: new_dict_def deep_copy_points_def new_list_def new_cell_def
      emit_def Let_def demo_aircraft_def demo_track_def init_heap_def eval_nat_numeral)
  done

subsection \<open>Deleting the path under edit\<close>

text \<open>
  C9 as stated fails: \<^verbatim>\<open>delete_selected_path\<close>, called and confirmed for the path of
  the open session, raises no error and removes the path from the manager; the session
  fields keep naming the removed path.
\<close>

theorem C9_delete_during_edit_counterexample:
  "editing_path_id (snd demo_editing) = Some ''AC-0001''
 \<and> selected (snd demo_editing) = Some ''AC-0001''
 \<and> lookup_path (path_manager (snd demo_editing)) ''AC-0001'' = Some 4
 \<and> lookup_path (path_manager demo_delete) ''AC-0001'' = None
 \<and> editing_path_id demo_delete = Some ''AC-0001''
 \<and> emitted demo_delete = [StartPathEditing ''AC-0001'', PathDeleted ''AC-0001'',
      Information ''Path AC-0001 deleted successfully!'']"
  apply (simp add: demo_delete_def demo_editing_eq delete_selected_path_def demo_lookup)
  apply (simp add: demo_state_eq delete_path_def lookup_path_def emit_def select_path_def
      on_path_selection_changed_def)
  done

subsection \<open>Copies of waypoint lists are new objects\<close>

lemma copy_cells_props:
  "copy_cells h rs = (qs, h') \<Longrightarrow>
     next_ref h' = next_ref h + length rs
   \<and> qs = [next_ref h..<next_ref h + length rs]
   \<and> dicts h' = dicts h \<and> lists h' = lists h
   \<and> (\<forall>x. x < next_ref h \<longrightarrow> cells h' x = cells h x)"
proof (induction rs arbitrary: h qs h')
  case Nil
  then show ?case by simp
next
  case (Cons p ps)
  obtain qs1 h2 where rec: "copy_cells (snd (new_cell h (cells h p))) ps = (qs1, h2)"
    by (cases "copy_cells (snd (new_cell h (cells h p))) ps") auto
  from Cons.prems rec have res: "qs = next_ref h # qs1" "h' = h2"
    by (simp_all add: new_cell_def Let_def)
  have up: "[next_ref h..<next_ref h + length (p # ps)]
      = next_ref h # [Suc (next_ref h)..<Suc (next_ref h) + length ps]"
    by (simp add: upt_conv_Cons del: upt_Suc)
  have nx: "next_ref (snd (new_cell h (cells h p))) = Suc (next_ref h)"
    "dicts (snd (new_cell h (cells h p))) = dicts h"
    "lists (snd (new_cell h (cells h p))) = lists h"
    "\<And>x. x < next_ref h \<Longrightarrow> cells (snd (new_cell h (cells h p))) x = cells h x"
    by (simp_all add: new_cell_def)
  from Cons.IH [OF rec] have ih:
    "next_ref h2 = Suc (next_ref h) + length ps"
    "qs1 = [Suc (next_ref h)..<Suc (next_ref h) + length ps]"
    "dicts h2 = dicts h" "lists h2 = lists h"
    "\<And>x. x < next_ref h \<Longrightarrow> cells h2 x = cells h x"
    using nx by simp_all
  show ?case
    unfolding res up using ih by simp
qed

lemma copy_cells_values:
  "copy_cells h rs = (qs, h') \<Longrightarrow> \<forall>r\<in>set rs. r < next_ref h \<Longrightarrow>
     map (cells h') qs = map (cells h) rs"
proof (induction rs arbitrary: h qs h')
  case Nil
  then show ?case by simp
next
  case (Cons p ps)
  define ha where "ha = snd (new_cell h (cells h p))"
  obtain qs1 h2 where rec: "copy_cells ha ps = (qs1, h2)"
    by (cases "copy_cells ha ps") auto
  from Cons.prems(1) rec have res: "qs = next_ref h # qs1" "h' = h2"
    by (simp_all add: new_cell_def Let_def ha_def)
  have ha: "next_ref ha = Suc (next_ref h)" "cells ha = (cells h)(next_ref h := cells h p)"
    by (simp_all add: ha_def new_cell_def)
  have "\<forall>r\<in>set ps. r < next_ref ha"
    using Cons.prems(2) ha by auto
  from Cons.IH [OF rec this] have tl: "map (cells h2) qs1 = map (cells ha) ps" .
  have "map (cells ha) ps = map (cells h) ps"
    using Cons.prems(2) ha by auto
  moreover have "cells h2 (next_ref h) = cells h p"
    using copy_cells_props [OF rec] ha by simp
  ultimately show ?case
    using tl res by simp
qed

lemma deep_copy_points_props:
  assumes "deep_copy_points h l = (l', h')"
  shows "l' = next_ref h + length (lists h l)"
    and "next_ref h' = Suc l'"
    and "dicts h' = dicts h"
    and "lists h' = (lists h)(l' := [next_ref h..<l'])"
    and "\<And>x. x < next_ref h \<Longrightarrow> cells h' x = cells h x"
    and "\<forall>r\<in>set (lists h l). r < next_ref h \<Longrightarrow> read_points h' l' = read_points h l"
proof -
  obtain qs h1 where cc: "copy_cells h (lists h l) = (qs, h1)"
    by (cases "copy_cells h (lists h l)") auto
  note p = copy_cells_props [OF cc]
  from assms cc have res: "l' = next_ref h1" "h' = snd (new_list h1 qs)"
    by (auto simp add: deep_copy_points_def new_list_def)
  show "l' = next_ref h + length (lists h l)" using res p by simp
  show "next_ref h' = Suc l'" using res by (simp add: new_list_def)
  show "dicts h' = dicts h" using res p by (simp add: new_list_def)
  show "lists h' = (lists h)(l' := [next_ref h..<l'])" using res p by (simp add: new_list_def)
  show "\<And>x. x < next_ref h \<Longrightarrow> cells h' x = cells h x" using res p by (simp add: new_list_def)
  show "read_points h' l' = read_points h l" if "\<forall>r\<in>set (lists h l). r < next_ref h"
    using copy_cells_values [OF cc that] res by (simp add: read_points_def new_list_def)
qed

lemma start_path_editing_props:
  assumes sel: "selected t = Some pid"
    and look: "lookup_path (path_manager t) pid = Some r"
    and start: "start_path_editing h t = (h1, t1)"
  defines "L \<equiv> points (dicts h r)"
  defines "Ls \<equiv> Suc (next_ref h) + length (lists h (points (dicts h r)))"
  shows "editing_path_id t1 = Some pid"
    and "original_path_data t1 = Some ((dicts h r)\<lparr>points := Ls\<rparr>)"
    and "path_manager t1 = path_manager t"
    and "selected t1 = selected t"
    and "\<not> btn_edit_path_enabled t1" and "\<not> btn_delete_path_enabled t1"
    and "emitted t1 = emitted t @ [StartPathEditing pid]"
    and "next_ref h1 = Suc Ls"
    and "\<And>x. x < next_ref h \<Longrightarrow> dicts h1 x = dicts h x"
    and "\<And>x. x < next_ref h \<Longrightarrow> lists h1 x = lists h x"
    and "\<And>x. x < next_ref h \<Longrightarrow> cells h1 x = cells h x"
    and "lists h1 Ls = [Suc (next_ref h)..<Ls]"
    and "\<forall>c\<in>set (lists h L). c < next_ref h \<Longrightarrow> read_points h1 Ls = read_points h L"
proof -
  define ha where "ha = snd (new_dict h (dicts h r))"
  have ha: "next_ref ha = Suc (next_ref h)" "lists ha = lists h" "cells ha = cells h"
    "dicts ha = (dicts h)(next_ref h := dicts h r)"
    by (simp_all add: ha_def new_dict_def)
  obtain l hb where dc: "deep_copy_points ha L = (l, hb)"
    by (cases "deep_copy_points ha L") auto
  note p = deep_copy_points_props [OF dc]
  have l: "l = Ls" using p(1) ha by (simp add: Ls_def L_def)
  from start sel look dc have res: "h1 = hb"
    "t1 = emit (t\<lparr>editing_path_id := Some pid,
                   original_path_data := Some ((dicts h r)\<lparr>points := l\<rparr>),
                   btn_edit_path_enabled := False, btn_delete_path_enabled := False\<rparr>)
            (StartPathEditing pid)"
    by (auto simp add: start_path_editing_def get_path_by_id_def new_dict_def Let_def ha_def L_def)
  show "editing_path_id t1 = Some pid" "path_manager t1 = path_manager t"
    "selected t1 = selected t" "\<not> btn_edit_path_enabled t1" "\<not> btn_delete_path_enabled t1"
    "emitted t1 = emitted t @ [StartPathEditing pid]"
    by (simp_all add: res emit_def)
  show "original_path_data t1 = Some ((dicts h r)\<lparr>points := Ls\<rparr>)"
    by (simp add: res emit_def l)
  show "next_ref h1 = Suc Ls" using p(2) res l by simp
  show "\<And>x. x < next_ref h \<Longrightarrow> dicts h1 x = dicts h x" using p(3) ha res by simp
  show "\<And>x. x < next_ref h \<Longrightarrow> lists h1 x = lists h x"
    using p(4) ha res l by (simp add: Ls_def)
  show "\<And>x. x < next_ref h \<Longrightarrow> cells h1 x = cells h x" using p(5) ha res by simp
  show "lists h1 Ls = [Suc (next_ref h)..<Ls]" using p(4) ha res l by simp
  show "read_points h1 Ls = read_points h L" if "\<forall>c\<in>set (lists h L). c < next_ref h"
  proof -
    have "\<forall>c\<in>set (lists ha L). c < next_ref ha" using that ha by auto
    from p(6) [OF this] show ?thesis using res l ha by (simp add: read_points_def)
  qed
qed

subsection \<open>Edits keep the session and the snapshot\<close>

lemma edit_frame_refl: "edit_frame r h h"
  by (simp add: edit_frame_def)

lemma edit_frame_trans: "edit_frame r h h1 \<Longrightarrow> edit_frame r h1 h2 \<Longrightarrow> edit_frame r h h2"
  by (auto simp add: edit_frame_def)

lemma same_session_refl: "same_session t t"
  by (simp add: same_session_def)

lemma same_session_trans: "same_session t t1 \<Longrightarrow> same_session t1 t2 \<Longrightarrow> same_session t t2"
  by (simp add: same_session_def)

lemma recompute_distance_frame: "edit_frame r h (snd (recompute_distance h r'))"
  by (simp add: recompute_distance_total edit_frame_def set_dict_def)

lemma move_waypoint_frame: "edit_frame r h (move_waypoint h r i lat lon)"
  by (simp add: move_waypoint_def Let_def new_cell_def recompute_distance_total
      edit_frame_def set_dict_def set_list_def)

lemma insert_waypoint_frame:
  "lookup_path pm pid = Some r \<Longrightarrow>
     edit_frame r h (snd (insert_waypoint (snd (new_cell h p)) pm pid i (fst (new_cell h p))))"
  by (simp add: insert_waypoint_def Let_def new_cell_def recompute_distance_total
      edit_frame_def set_dict_def set_list_def list_insert_def)

lemma remove_waypoint_frame:
  "lookup_path pm pid = Some r \<Longrightarrow> edit_frame r h (snd (remove_waypoint h pm pid i))"
  by (simp add: remove_waypoint_def Let_def recompute_distance_total
      edit_frame_def set_dict_def set_list_def list_pop_def)

lemma apply_edit_frame:
  assumes "editing_path_id t = Some pid" and "lookup_path (path_manager t) pid = Some r"
  shows "edit_frame r h (fst (apply_edit (h, t) e)) \<and> same_session t (snd (apply_edit (h, t) e))"
proof (cases e)
  case (Move p i lat lon)
  with assms show ?thesis
    by (auto simp add: on_waypoint_moved_def move_waypoint_frame edit_frame_refl same_session_refl)
next
  case (Insert p i lat lon)
  with assms insert_waypoint_frame [of "path_manager t" pid r h "(lat, lon)" i] show ?thesis
    by (auto simp add: on_waypoint_inserted_def edit_frame_refl same_session_refl
        split: prod.splits)
next
  case (Delete p i)
  with assms remove_waypoint_frame [of "path_manager t" pid r h i] show ?thesis
    by (auto simp add: on_waypoint_deleted_def edit_frame_refl same_session_refl emit_def
        same_session_def split: prod.splits sum.splits bool.splits)
qed

lemma apply_edits_frame:
  assumes "editing_path_id t = Some pid" and "lookup_path (path_manager t) pid = Some r"
  shows "edit_frame r h (fst (apply_edits (h, t) es)) \<and> same_session t (snd (apply_edits (h, t) es))"
  using assms
proof (induction es arbitrary: h t)
  case Nil
  then show ?case by (simp add: apply_edits_def edit_frame_refl same_session_refl)
next
  case (Cons e es)
  obtain h1 t1 where st: "apply_edit (h, t) e = (h1, t1)"
    by (cases "apply_edit (h, t) e") auto
  from apply_edit_frame [OF Cons.prems, of h e] st
  have f1: "edit_frame r h h1" "same_session t t1" by simp_all
  then have "editing_path_id t1 = Some pid" "lookup_path (path_manager t1) pid = Some r"
    using Cons.prems by (simp_all add: same_session_def)
  from Cons.IH [OF this, of h1]
  have "edit_frame r h1 (fst (apply_edits (h1, t1) es))"
    "same_session t1 (snd (apply_edits (h1, t1) es))" by simp_all
  with f1 show ?case
    by (auto simp add: apply_edits_def st intro: edit_frame_trans same_session_trans)
qed

subsection \<open>Cancelling an edit session\<close>

lemma restore_path_props:
  assumes "\<forall>c\<in>set (lists h (points original)). c < next_ref h"
  defines "l' \<equiv> next_ref h + length (lists h (points original))"
  shows "path_view (restore_path h r original)  r
           = (read_points h (points original), distance_nm original, speed_kts original,
              altitude_ft original, current_position original)"
    and "points (dicts (restore_path h r original) r) = l'"
    and "lists (restore_path h r original) = (lists h)(l' := [next_ref h..<l'])"
proof -
  obtain l hc where dc: "deep_copy_points h (points original) = (l, hc)"
    by (cases "deep_copy_points h (points original)") auto
  note p = deep_copy_points_props [OF dc]
  have l: "l = l'" using p(1) by (simp add: l'_def)
  have res: "restore_path h r original =
      set_dict hc r ((dicts hc r)\<lparr>points := l, distance_nm := distance_nm original,
        speed_kts := speed_kts original, altitude_ft := altitude_ft original,
        current_position := current_position original\<rparr>)"
    by (simp add: restore_path_def dc)
  show "points (dicts (restore_path h r original) r) = l'"
    by (simp add: res set_dict_def l)
  show "lists (restore_path h r original) = (lists h)(l' := [next_ref h..<l'])"
    using p(4) by (simp add: res set_dict_def l)
  show "path_view (restore_path h r original)  r
           = (read_points h (points original), distance_nm original, speed_kts original,
              altitude_ft original, current_position original)"
    using p(6) [OF assms(1)] by (simp add: res path_view_def set_dict_def read_points_def)
qed

text \<open>
  C1. Let a session begin on a stored path whose objects are allocated, let any sequence
  of waypoint moves, insertions and removals follow (whatever path they name and whatever
  their indices; there is no tick in between), and let the session be cancelled. Then the
  waypoints, distance, speed, altitude and progress of the path are what they were when
  the session began, the session fields are cleared, the snapshot held the original
  waypoints all along, and the restored list object and its waypoint objects are
  different objects from the list and the waypoints of the snapshot.
\<close>

theorem C1_cancel_restores_path:
  assumes sel: "selected t = Some pid" and ne: "pid \<noteq> []"
    and look: "lookup_path (path_manager t) pid = Some r"
    and r: "r < next_ref h" and L: "points (dicts h r) < next_ref h"
    and cs: "\<forall>c\<in>set (lists h (points (dicts h r))). c < next_ref h"
    and start: "start_path_editing h t = (h1, t1)"
    and edits: "apply_edits (h1, t1) es = (h2, t2)"
    and cancel: "cancel_path_editing h2 t2 = (h3, t3)"
  shows "path_view h3 r = path_view h r
     \<and> editing_path_id t3 = None \<and> original_path_data t3 = None
     \<and> (\<exists>snap. original_path_data t1 = Some snap \<and> original_path_data t2 = Some snap
          \<and> read_points h2 (points snap) = read_points h (points (dicts h r))
          \<and> points (dicts h3 r) \<noteq> points snap
          \<and> set (lists h3 (points (dicts h3 r))) \<inter> set (lists h3 (points snap)) = {})"
proof -
  define Ls where "Ls = Suc (next_ref h) + length (lists h (points (dicts h r)))"
  define snap where "snap = (dicts h r)\<lparr>points := Ls\<rparr>"
  note sp = start_path_editing_props [OF sel look start, folded Ls_def]
  have t1: "editing_path_id t1 = Some pid" "original_path_data t1 = Some snap"
    "lookup_path (path_manager t1) pid = Some r"
    using sp(1,2,3) look by (simp_all add: snap_def)
  have h1: "dicts h1 r = dicts h r" "next_ref h1 = Suc Ls" "lists h1 Ls = [Suc (next_ref h)..<Ls]"
    "read_points h1 Ls = read_points h (points (dicts h r))"
    using sp(9) [OF r] sp(8) sp(12) sp(13) [OF cs] by simp_all
  from apply_edits_frame [OF t1(1) t1(3), of h1 es] edits
  have fr: "edit_frame r h1 h2" and ss: "same_session t1 t2" by simp_all
  have t2: "editing_path_id t2 = Some pid" "original_path_data t2 = Some snap"
    "lookup_path (path_manager t2) pid = Some r"
    using ss t1 by (simp_all add: same_session_def)
  have LLs: "Ls \<noteq> points (dicts h1 r)" using L h1(1) by (simp add: Ls_def)
  have h2: "next_ref h1 \<le> next_ref h2" "lists h2 Ls = lists h1 Ls"
    "\<And>c. c < next_ref h1 \<Longrightarrow> cells h2 c = cells h1 c"
    using fr LLs by (simp_all add: edit_frame_def)
  have below: "\<forall>c\<in>set (lists h2 Ls). c < next_ref h1"
    using h2(2) h1(2,3) by auto
  have rp2: "read_points h2 Ls = read_points h (points (dicts h r))"
  proof -
    have "read_points h2 Ls = read_points h1 Ls"
      using below h2 by (simp add: read_points_def)
    then show ?thesis using h1(4) by simp
  qed
  have below2: "\<forall>c\<in>set (lists h2 (points snap)). c < next_ref h2"
    using below h2(1) by (auto simp add: snap_def)
  note rs = restore_path_props [OF below2, of r]
  from cancel t2 ne have res: "h3 = restore_path h2 r snap"
    "t3 = on_path_selection_changed
            ((emit (emit t2 StopPathEditing)
               (RestorePath pid (read_points (restore_path h2 r snap) (points snap))))
             \<lparr>editing_path_id := None, original_path_data := None\<rparr>)"
    by (auto simp add: cancel_path_editing_def Let_def)
  have view: "path_view h3 r = path_view h r"
    using rs(1) rp2 by (simp add: res snap_def path_view_def Let_def)
  have t3: "editing_path_id t3 = None" "original_path_data t3 = None"
    by (simp_all add: res on_path_selection_changed_def emit_def Let_def)
  have pts3: "points (dicts h3 r) = next_ref h2 + length (lists h2 Ls)"
    using rs(2) by (simp add: res snap_def)
  have ne3: "points (dicts h3 r) \<noteq> points snap"
    using pts3 h2(1) h1(2) by (simp add: snap_def)
  have l3: "lists h3 (points (dicts h3 r)) = [next_ref h2..<next_ref h2 + length (lists h2 Ls)]"
    "lists h3 Ls = lists h2 Ls"
    using rs(3) pts3 h2(1) h1(2) by (simp_all add: res snap_def)
  have disj: "set (lists h3 (points (dicts h3 r))) \<inter> set (lists h3 (points snap)) = {}"
    using l3 below h2(1) by (auto simp add: snap_def)
  show ?thesis
    using view t3 t1(2) t2(2) rp2 ne3 disj by (auto simp add: snap_def)
qed

lemma demo_start: "start_path_editing (fst demo_state) demo_tab = demo_editing"
  by (simp add: demo_editing_def click_edit_path_def demo_tab_eq)

lemma demo_edited_points:
  "read_points (fst demo_edited) (points (dicts (fst demo_edited) 4))
     = [(19, 77), (22, 79.5), (22, 80)]"
  apply (simp add: demo_edited_def demo_edits_def apply_edits_def demo_editing_eq
      on_waypoint_inserted_def on_waypoint_moved_def on_waypoint_deleted_def demo_lookup
      insert_waypoint_def remove_waypoint_def move_waypoint_def recompute_distance_total
      new_cell_def list_insert_def list_pop_def set_list_def set_dict_def Let_def
      demo_aircraft_def read_points_def)
  done

theorem C1_cancel_restores_path_witness:
  "selected demo_tab = Some ''AC-0001''
 \<and> lookup_path (path_manager demo_tab) ''AC-0001'' = Some 4
 \<and> read_points (fst demo_edited) (points (dicts (fst demo_edited) 4))
     = [(19, 77), (22, 79.5), (22, 80)]
 \<and> path_view (fst demo_cancelled) 4 = ([(20, 78), (21, 79), (22, 80)], 100, 450, 15000, 0)
 \<and> editing_path_id (snd demo_cancelled) = None"
proof -
  have a: "selected demo_tab = Some ''AC-0001''"
    by (simp add: demo_tab_eq)
  have b: "''AC-0001'' \<noteq> []"
    by simp
  have c: "lookup_path (path_manager demo_tab) ''AC-0001'' = Some 4"
    by (simp add: demo_tab_eq demo_lookup)
  have d: "4 < next_ref (fst demo_state)"
    and e: "points (dicts (fst demo_state) 4) < next_ref (fst demo_state)"
    and f: "\<forall>c\<in>set (lists (fst demo_state) (points (dicts (fst demo_state) 4))).
              c < next_ref (fst demo_state)"
    by (simp_all add: demo_objects demo_aircraft_def)
  have g: "start_path_editing (fst demo_state) demo_tab = (fst demo_editing, snd demo_editing)"
    by (simp add: demo_start)
  have h: "apply_edits (fst demo_editing, snd demo_editing) demo_edits
             = (fst demo_edited, snd demo_edited)"
    by (simp add: demo_edited_def)
  have i: "cancel_path_editing (fst demo_edited) (snd demo_edited)
             = (fst demo_cancelled, snd demo_cancelled)"
    by (simp add: demo_cancelled_def)
  have v: "path_view (fst demo_state) 4 = ([(20, 78), (21, 79), (22, 80)], 100, 450, 15000, 0)"
    by (simp add: demo_state_eq path_view_def read_points_def demo_aircraft_def)
  from C1_cancel_restores_path [OF a b c d e f g h i] show ?thesis
    using a c v demo_edited_points by simp
qed

subsection \<open>The buttons are the gate\<close>

lemma click_edit_path_gated:
  "editing_path_id t \<noteq> None \<Longrightarrow>
     click_edit_path h (select_path t sel) = (h, select_path t sel)"
  by (auto simp add: click_edit_path_def select_path_def on_path_selection_changed_def Let_def)

lemma click_delete_path_gated:
  "editing_path_id t \<noteq> None \<Longrightarrow>
     click_delete_path (select_path t sel) reply = select_path t sel"
  by (auto simp add: click_delete_path_def select_path_def on_path_selection_changed_def Let_def)

text \<open>
  C6 as amended. There is no \<^verbatim>\<open>SessionAlreadyActive\<close> error. While a session is open
  the edit button is disabled whatever is selected, so a click does not reach
  \<^verbatim>\<open>start_path_editing\<close> and nothing changes. \<^verbatim>\<open>start_path_editing\<close> itself has no
  check: called with a stored path selected, during a session or not, it makes that path
  the target of the one session there is and takes a new snapshot of it. In both cases
  every object that was in the store, and with it the state of every path, stays as it
  was.
\<close>

theorem C6_begin_edit_is_gated:
  "(editing_path_id t \<noteq> None
      \<longrightarrow> click_edit_path h (select_path t sel) = (h, select_path t sel))
 \<and> (selected t = Some pid \<and> lookup_path (path_manager t) pid = Some r
        \<and> start_path_editing h t = (h1, t1)
      \<longrightarrow> editing_path_id t1 = Some pid
        \<and> original_path_data t1
            = Some ((dicts h r)\<lparr>points := Suc (next_ref h) + length (lists h (points (dicts h r)))\<rparr>)
        \<and> \<not> btn_edit_path_enabled t1 \<and> \<not> btn_delete_path_enabled t1
        \<and> emitted t1 = emitted t @ [StartPathEditing pid]
        \<and> path_manager t1 = path_manager t
        \<and> (\<forall>x<next_ref h. dicts h1 x = dicts h x \<and> lists h1 x = lists h x
              \<and> cells h1 x = cells h x))"
  using click_edit_path_gated [of t h sel] start_path_editing_props [of t pid r h h1 t1]
  by simp

theorem C6_begin_edit_is_gated_witness:
  "editing_path_id (snd demo_editing) \<noteq> None
 \<and> click_edit_path (fst demo_editing) (select_path (snd demo_editing) (Some ''TRK-0001''))
     = (fst demo_editing, select_path (snd demo_editing) (Some ''TRK-0001''))
 \<and> selected (select_path (snd demo_editing) (Some ''TRK-0001'')) = Some ''TRK-0001''
 \<and> editing_path_id (snd demo_second_edit) = Some ''TRK-0001''
 \<and> path_manager (snd demo_second_edit) = snd demo_state
 \<and> dicts (fst demo_second_edit) 8 = demo_track
 \<and> read_points (fst demo_second_edit) 7 = [(10, 70), (11, 71)]"
proof -
  have a: "editing_path_id (snd demo_editing) \<noteq> None"
    by (simp add: demo_editing_eq)
  have b: "selected (select_path (snd demo_editing) (Some ''TRK-0001'')) = Some ''TRK-0001''"
    and c: "lookup_path (path_manager (select_path (snd demo_editing) (Some ''TRK-0001'')))
              ''TRK-0001'' = Some 8"
    by (simp_all add: select_path_def on_path_selection_changed_def demo_editing_eq demo_lookup)
  have d: "start_path_editing (fst demo_editing)
             (select_path (snd demo_editing) (Some ''TRK-0001''))
           = (fst demo_second_edit, snd demo_second_edit)"
    by (simp add: demo_second_edit_def)
  have e: "next_ref (fst demo_editing) = 14" "dicts (fst demo_editing) 8 = demo_track"
    "lists (fst demo_editing) 7 = [5, 6]"
    "cells (fst demo_editing) 5 = (10, 70)" "cells (fst demo_editing) 6 = (11, 71)"
    "path_manager (select_path (snd demo_editing) (Some ''TRK-0001'')) = snd demo_state"
    by (simp_all add: demo_editing_eq select_path_def on_path_selection_changed_def)
  from C6_begin_edit_is_gated [of "snd demo_editing" "fst demo_editing" "Some ''TRK-0001''"]
    C6_begin_edit_is_gated [of "select_path (snd demo_editing) (Some ''TRK-0001'')"
      "fst demo_editing" None "''TRK-0001''" 8 "fst demo_second_edit" "snd demo_second_edit"]
  show ?thesis
    using a b c d e by (simp add: read_points_def)
qed

lemma delete_path_removes:
  assumes "lookup_path pm pid = Some r"
    and "map_of (aircraft_paths pm) pid = None \<or> map_of (track_paths pm) pid = None"
  shows "fst (delete_path pm pid) = Some r \<and> lookup_path (snd (delete_path pm pid)) pid = None"
  using assms
  by (auto simp add: delete_path_def lookup_path_def delete_conv split: option.splits)

text \<open>
  C9 as amended. There is no \<^verbatim>\<open>PathLocked\<close> error. While a session is open the delete
  button is disabled whatever is selected, so a click does not reach
  \<^verbatim>\<open>delete_selected_path\<close> and nothing changes. \<^verbatim>\<open>delete_selected_path\<close> itself has
  no check: called and confirmed for a stored path, also the one under edit, it removes
  the path from the manager and leaves the session fields as they are.
\<close>

theorem C9_delete_is_gated:
  "(editing_path_id t \<noteq> None
      \<longrightarrow> click_delete_path (select_path t sel) reply = select_path t sel)
 \<and> (selected t = Some pid \<and> lookup_path (path_manager t) pid = Some r
        \<and> (map_of (aircraft_paths (path_manager t)) pid = None
             \<or> map_of (track_paths (path_manager t)) pid = None)
      \<longrightarrow> lookup_path (path_manager (delete_selected_path t True)) pid = None
        \<and> editing_path_id (delete_selected_path t True) = editing_path_id t
        \<and> original_path_data (delete_selected_path t True) = original_path_data t
        \<and> emitted (delete_selected_path t True)
            = emitted t @ [PathDeleted pid,
                Information (''Path '' @ pid @ '' deleted successfully!'')])"
proof -
  have gate: "editing_path_id t \<noteq> None
      \<longrightarrow> click_delete_path (select_path t sel) reply = select_path t sel"
    using click_delete_path_gated [of t sel reply] by simp
  have direct: "lookup_path (path_manager (delete_selected_path t True)) pid = None
        \<and> editing_path_id (delete_selected_path t True) = editing_path_id t
        \<and> original_path_data (delete_selected_path t True) = original_path_data t
        \<and> emitted (delete_selected_path t True)
            = emitted t @ [PathDeleted pid,
                Information (''Path '' @ pid @ '' deleted successfully!'')]"
    if sel: "selected t = Some pid" and look: "lookup_path (path_manager t) pid = Some r"
      and one: "map_of (aircraft_paths (path_manager t)) pid = None
             \<or> map_of (track_paths (path_manager t)) pid = None"
  proof -
    obtain pm1 where del: "delete_path (path_manager t) pid = (Some r, pm1)"
      and gone: "lookup_path pm1 pid = None"
      using delete_path_removes [OF look one]
      by (cases "delete_path (path_manager t) pid") auto
    show ?thesis
      using sel del gone
      by (simp add: delete_selected_path_def emit_def select_path_def
          on_path_selection_changed_def)
  qed
  from gate direct show ?thesis by blast
qed

theorem C9_delete_is_gated_witness:
  "editing_path_id (snd demo_editing) \<noteq> None
 \<and> click_delete_path (select_path (snd demo_editing) (Some ''AC-0001'')) True
     = select_path (snd demo_editing) (Some ''AC-0001'')
 \<and> selected (snd demo_editing) = Some ''AC-0001''
 \<and> lookup_path (path_manager (snd demo_editing)) ''AC-0001'' = Some 4
 \<and> lookup_path (path_manager (delete_selected_path (snd demo_editing) True)) ''AC-0001'' = None
 \<and> editing_path_id (delete_selected_path (snd demo_editing) True) = Some ''AC-0001''"
proof -
  have a: "editing_path_id (snd demo_editing) \<noteq> None"
    "editing_path_id (snd demo_editing) = Some ''AC-0001''"
    "selected (snd demo_editing) = Some ''AC-0001''"
    "lookup_path (path_manager (snd demo_editing)) ''AC-0001'' = Some 4"
    by (simp_all add: demo_editing_eq demo_lookup)
  have b: "map_of (aircraft_paths (path_manager (snd demo_editing))) ''AC-0001'' = None
      \<or> map_of (track_paths (path_manager (snd demo_editing))) ''AC-0001'' = None"
    by (simp add: demo_editing_eq demo_state_eq)
  from C9_delete_is_gated [of "snd demo_editing" "Some ''AC-0001''" True "''AC-0001''" 4]
  show ?thesis
    using a b by simp
qed

subsection \<open>The tick\<close>

lemma py_index_first: "pts \<noteq> [] \<Longrightarrow> py_index pts 0 = Inr (pts ! 0)"
  by (simp add: py_index_def)

lemma py_index_last: "pts \<noteq> [] \<Longrightarrow> py_index pts (- 1) = Inr (pts ! (length pts - 1))"
  by (cases pts) (simp_all add: py_index_def)

lemma py_index_inside:
  "0 \<le> i \<Longrightarrow> i < int (length pts) \<Longrightarrow> py_index pts i = Inr (pts ! nat i)"
  by (simp add: py_index_def)

lemma interpolate_path_total:
  assumes "0 \<le> position"
  shows "\<exists>p. interpolate_path pts position = Inr p"
proof (cases "length pts < 2")
  case True
  then show ?thesis
    by (simp add: interpolate_path_def py_index_first)
next
  case False
  then have ne: "pts \<noteq> []" by auto
  define si where "si = py_int (position / (1 / (real (length pts) - 1)))"
  have "0 \<le> position / (1 / (real (length pts) - 1))"
    using assms False by simp
  then have si0: "0 \<le> si"
    by (simp add: si_def py_int_def)
  show ?thesis
  proof (cases "int (length pts) - 1 \<le> si")
    case True
    show ?thesis
      unfolding interpolate_path_def Let_def si_def [symmetric]
      using False True ne by (simp add: py_index_last)
  next
    case b: False
    then have "si < int (length pts)" "0 \<le> si + 1" "si + 1 < int (length pts)"
      using si0 by simp_all
    then show ?thesis
      unfolding interpolate_path_def Let_def si_def [symmetric]
      using False b si0 by (simp add: py_index_inside)
  qed
qed

lemma calculate_heading_total:
  assumes "0 \<le> position"
  shows "\<exists>a. calculate_heading pts position = Inr a"
proof -
  obtain c where c: "interpolate_path pts position = Inr c"
    using interpolate_path_total [OF assms] by blast
  have "0 \<le> min (position + 0.01) (0.999::real)"
    using assms by simp
  then obtain n where n: "interpolate_path pts (min (position + 0.01) 0.999) = Inr n"
    using interpolate_path_total by blast
  show ?thesis
    unfolding calculate_heading_def Let_def c n by simp
qed

lemma wrap_is_frac:
  "0 \<le> (m::real) \<Longrightarrow> (if 1 \<le> m then py_mod m 1 else m) = frac m"
  by (auto simp add: py_mod_def frac_def floor_eq_iff)

lemma advance_path_moves:
  assumes "0 \<le> dt" and "0 \<le> speed_kts (dicts h r)" and "0 \<le> current_position (dicts h r)"
  shows "\<exists>us. advance_path ty dt h pid r = Inr (set_dict h r (advanced dt (dicts h r)), us)
     \<and> map upd_id us = (if 0 < distance_nm (dicts h r) then [pid] else [])
     \<and> (\<forall>u\<in>set us. upd_type u = ty)"
proof (cases "0 < distance_nm (dicts h r)")
  case False
  then show ?thesis
    by (simp add: advance_path_def advanced_def set_dict_def Let_def)
next
  case True
  define m where "m = current_position (dicts h r)
      + speed_kts (dicts h r) / 3600 * dt / distance_nm (dicts h r)"
  have m0: "0 \<le> m"
    using assms True by (simp add: m_def)
  have w: "(if 1 \<le> m then py_mod m 1 else m) = frac m"
    using wrap_is_frac [OF m0] .
  have f0: "0 \<le> frac m" by simp
  define pts where "pts = read_points (set_dict h r ((dicts h r)\<lparr>current_position := frac m\<rparr>))
      (points (dicts h r))"
  obtain c where c: "interpolate_path pts (frac m) = Inr c"
    using interpolate_path_total [OF f0] by blast
  obtain a where a: "calculate_heading pts (frac m) = Inr a"
    using calculate_heading_total [OF f0] by blast
  have adv: "advanced dt (dicts h r) = (dicts h r)\<lparr>current_position := frac m\<rparr>"
    using True by (simp add: advanced_def m_def)
  show ?thesis
    apply (unfold advance_path_def Let_def)
    apply (fold m_def)
    apply (unfold w)
    apply (fold pts_def)
    apply (unfold c a adv)
    apply (simp add: True)
    done
qed

lemma advance_loop_moves:
  assumes "0 \<le> dt" and "distinct (map snd ps)"
    and "\<forall>(pid, r)\<in>set ps. 0 \<le> speed_kts (dicts h r) \<and> 0 \<le> current_position (dicts h r)"
  shows "\<exists>h' us. advance_loop ty dt ps h ups = Inr (h', ups @ us)
     \<and> map upd_id us = map fst (filter (\<lambda>(pid, r). 0 < distance_nm (dicts h r)) ps)
     \<and> dicts h' = (\<lambda>x. if x \<in> snd ` set ps then advanced dt (dicts h x) else dicts h x)
     \<and> lists h' = lists h \<and> cells h' = cells h \<and> next_ref h' = next_ref h
     \<and> (\<forall>u\<in>set us. upd_type u = ty)"
  using assms(2,3)
proof (induction ps arbitrary: h ups)
  case Nil
  then show ?case by simp
next
  case (Cons a rest)
  obtain pid r where a: "a = (pid, r)" by (cases a)
  have r: "0 \<le> speed_kts (dicts h r)" "0 \<le> current_position (dicts h r)"
    using Cons.prems(2) a by simp_all
  obtain us1 where ap: "advance_path ty dt h pid r = Inr (set_dict h r (advanced dt (dicts h r)), us1)"
    and id1: "map upd_id us1 = (if 0 < distance_nm (dicts h r) then [pid] else [])"
    and ty1: "\<forall>u\<in>set us1. upd_type u = ty"
    using advance_path_moves [OF assms(1) r, of ty pid] by blast
  define h1 where "h1 = set_dict h r (advanced dt (dicts h r))"
  have fresh: "r \<notin> snd ` set rest"
    using Cons.prems(1) a by auto
  have same: "\<And>x. x \<in> snd ` set rest \<Longrightarrow> dicts h1 x = dicts h x"
    using fresh by (auto simp add: h1_def set_dict_def)
  have d: "distinct (map snd rest)" using Cons.prems(1) by simp
  have same': "\<And>q x. (q, x) \<in> set rest \<Longrightarrow> dicts h1 x = dicts h x"
    using same by force
  have p: "\<forall>(pid, r)\<in>set rest. 0 \<le> speed_kts (dicts h1 r) \<and> 0 \<le> current_position (dicts h1 r)"
    using Cons.prems(2) same' by auto
  obtain h' us2 where lp: "advance_loop ty dt rest h1 (ups @ us1) = Inr (h', (ups @ us1) @ us2)"
    and id2: "map upd_id us2 = map fst (filter (\<lambda>(pid, r). 0 < distance_nm (dicts h1 r)) rest)"
    and di2: "dicts h' = (\<lambda>x. if x \<in> snd ` set rest then advanced dt (dicts h1 x) else dicts h1 x)"
    and rest2: "lists h' = lists h1" "cells h' = cells h1" "next_ref h' = next_ref h1"
    and ty2: "\<forall>u\<in>set us2. upd_type u = ty"
    using Cons.IH [OF d p, of "ups @ us1"] by blast
  have fl: "filter (\<lambda>(pid, r). 0 < distance_nm (dicts h1 r)) rest
      = filter (\<lambda>(pid, r). 0 < distance_nm (dicts h r)) rest"
    by (rule filter_cong) (auto simp add: same')
  have di: "dicts h' = (\<lambda>x. if x \<in> snd ` set (a # rest) then advanced dt (dicts h x) else dicts h x)"
  proof
    fix x
    show "dicts h' x = (if x \<in> snd ` set (a # rest) then advanced dt (dicts h x) else dicts h x)"
    proof (cases "x = r")
      case True
      then show ?thesis using fresh by (simp add: di2 a h1_def set_dict_def)
    next
      case False
      then show ?thesis using same [of x] by (simp add: di2 a h1_def set_dict_def)
    qed
  qed
  have "advance_loop ty dt (a # rest) h ups = Inr (h', ups @ (us1 @ us2))"
    using ap lp by (simp add: a h1_def)
  moreover have "map upd_id (us1 @ us2)
      = map fst (filter (\<lambda>(pid, r). 0 < distance_nm (dicts h r)) (a # rest))"
    using id1 id2 fl by (simp add: a)
  moreover have "lists h' = lists h" "cells h' = cells h" "next_ref h' = next_ref h"
    using rest2 by (simp_all add: h1_def set_dict_def)
  moreover have "\<forall>u\<in>set (us1 @ us2). upd_type u = ty"
    using ty1 ty2 by auto
  ultimately show ?case
    using di by blast
qed

lemma update_positions_moves:
  assumes dt: "0 \<le> dt"
    and dist: "distinct (map snd (aircraft_paths pm @ track_paths pm))"
    and inv: "progress_in_range h pm"
  shows "\<exists>h' ups. update_positions h pm dt = Inr (h', ups)
     \<and> map upd_id ups
         = map fst (filter (\<lambda>(pid, r). 0 < distance_nm (dicts h r))
                      (aircraft_paths pm @ track_paths pm))
     \<and> (\<forall>(pid, r)\<in>set (aircraft_paths pm @ track_paths pm). dicts h' r = advanced dt (dicts h r))"
proof -
  have da: "distinct (map snd (aircraft_paths pm))" and dtr: "distinct (map snd (track_paths pm))"
    and dj: "snd ` set (aircraft_paths pm) \<inter> snd ` set (track_paths pm) = {}"
    using dist by simp_all
  have pa: "\<forall>(pid, r)\<in>set (aircraft_paths pm).
      0 \<le> speed_kts (dicts h r) \<and> 0 \<le> current_position (dicts h r)"
    using inv by (fastforce simp add: progress_in_range_def)
  have inv_t: "\<And>q x. (q, x) \<in> set (track_paths pm) \<Longrightarrow>
      0 \<le> speed_kts (dicts h x) \<and> 0 \<le> current_position (dicts h x)"
    using inv by (fastforce simp add: progress_in_range_def)
  obtain h1 us1 where l1: "advance_loop ''aircraft'' dt (aircraft_paths pm) h [] = Inr (h1, [] @ us1)"
    and id1: "map upd_id us1
         = map fst (filter (\<lambda>(pid, r). 0 < distance_nm (dicts h r)) (aircraft_paths pm))"
    and d1: "dicts h1 = (\<lambda>x. if x \<in> snd ` set (aircraft_paths pm)
                              then advanced dt (dicts h x) else dicts h x)"
    using advance_loop_moves [OF dt da pa, of "''aircraft''" "[]"] by blast
  have same: "\<And>q x. (q, x) \<in> set (track_paths pm) \<Longrightarrow> dicts h1 x = dicts h x"
    using dj by (force simp add: d1)
  have pt: "\<forall>(pid, r)\<in>set (track_paths pm).
      0 \<le> speed_kts (dicts h1 r) \<and> 0 \<le> current_position (dicts h1 r)"
    by (clarsimp simp add: same inv_t)
  obtain h2 us2 where l2: "advance_loop ''track'' dt (track_paths pm) h1 us1 = Inr (h2, us1 @ us2)"
    and id2: "map upd_id us2
         = map fst (filter (\<lambda>(pid, r). 0 < distance_nm (dicts h1 r)) (track_paths pm))"
    and d2: "dicts h2 = (\<lambda>x. if x \<in> snd ` set (track_paths pm)
                              then advanced dt (dicts h1 x) else dicts h1 x)"
    using advance_loop_moves [OF dt dtr pt, of "''track''" us1] by blast
  have fl: "filter (\<lambda>(pid, r). 0 < distance_nm (dicts h1 r)) (track_paths pm)
      = filter (\<lambda>(pid, r). 0 < distance_nm (dicts h r)) (track_paths pm)"
    by (rule filter_cong) (auto simp add: same)
  have up: "update_positions h pm dt = Inr (h2, us1 @ us2)"
    using l1 l2 by (simp add: update_positions_def)
  have ids: "map upd_id (us1 @ us2)
      = map fst (filter (\<lambda>(pid, r). 0 < distance_nm (dicts h r))
                   (aircraft_paths pm @ track_paths pm))"
    using id1 id2 fl by simp
  have all: "\<forall>(pid, r)\<in>set (aircraft_paths pm @ track_paths pm). dicts h2 r = advanced dt (dicts h r)"
  proof clarify
    fix pid r
    assume m: "(pid, r) \<in> set (aircraft_paths pm @ track_paths pm)"
    show "dicts h2 r = advanced dt (dicts h r)"
    proof (cases "(pid, r) \<in> set (track_paths pm)")
      case True
      then have "r \<in> snd ` set (track_paths pm)" by force
      then show ?thesis using same [OF True] by (simp add: d2)
    next
      case False
      with m have a: "(pid, r) \<in> set (aircraft_paths pm)" by simp
      then have ra: "r \<in> snd ` set (aircraft_paths pm)" by force
      then have "r \<notin> snd ` set (track_paths pm)" using dj by auto
      then show ?thesis using ra by (simp add: d2 d1)
    qed
  qed
  from up ids all show ?thesis by blast
qed

lemma advanced_in_range:
  assumes "0 \<le> speed_kts p" and "0 \<le> current_position p" and "current_position p < 1"
  shows "0 \<le> speed_kts (advanced dt p) \<and> 0 \<le> current_position (advanced dt p)
     \<and> current_position (advanced dt p) < 1"
  using assms by (simp add: advanced_def frac_lt_1)

lemma update_positions_keeps_range:
  assumes "0 \<le> dt" and "distinct (map snd (aircraft_paths pm @ track_paths pm))"
    and "progress_in_range h pm" and "update_positions h pm dt = Inr (h', ups)"
  shows "progress_in_range h' pm"
proof -
  from update_positions_moves [OF assms(1,2,3)] assms(4)
  have all: "\<forall>(pid, r)\<in>set (aircraft_paths pm @ track_paths pm). dicts h' r = advanced dt (dicts h r)"
    by auto
  show ?thesis
    unfolding progress_in_range_def
  proof clarify
    fix pid r
    assume m: "(pid, r) \<in> set (aircraft_paths pm @ track_paths pm)"
    then have "dicts h' r = advanced dt (dicts h r)" using all by auto
    moreover have "0 \<le> speed_kts (dicts h r)" "0 \<le> current_position (dicts h r)"
      "current_position (dicts h r) < 1"
      using assms(3) m by (fastforce simp add: progress_in_range_def)+
    ultimately show "0 \<le> speed_kts (dicts h' r) \<and> 0 \<le> current_position (dicts h' r)
        \<and> current_position (dicts h' r) < 1"
      using advanced_in_range [of "dicts h r" dt] by simp
  qed
qed

lemma run_ticks_keeps_range:
  assumes "\<forall>d\<in>set dts. 0 \<le> d" and "distinct (map snd (aircraft_paths pm @ track_paths pm))"
    and "progress_in_range h pm"
  shows "\<exists>h'. run_ticks h pm dts = Inr h' \<and> progress_in_range h' pm"
  using assms(1,3)
proof (induction dts arbitrary: h)
  case Nil
  then show ?case by simp
next
  case (Cons d dts)
  then have d: "0 \<le> d" by simp
  obtain h1 ups where up: "update_positions h pm d = Inr (h1, ups)"
    using update_positions_moves [OF d assms(2) Cons.prems(2)] by blast
  have "progress_in_range h1 pm"
    using update_positions_keeps_range [OF d assms(2) Cons.prems(2) up] .
  with Cons.IH [of h1] Cons.prems(1) up show ?case by simp
qed

text \<open>
  C2 as amended. Let the elapsed time be at least 0 and let every stored path have a
  speed of at least 0 and a progress from 0 up to, but not including, 1 (the stored dicts
  being different objects). Then \<^verbatim>\<open>update_positions\<close> raises nothing; a path of
  positive distance gets the progress \<open>frac (progress + (speed / 3600 * elapsed) /
  distance)\<close> and nothing else of it changes; a path of distance 0 is left as it is; the
  batch holds, in the order of the store, exactly one entry for each path of positive
  distance and none for the others; and every progress is again in range, so that the
  same holds for any number of calls one after the other.
\<close>

theorem C2_advance_wraps_progress:
  assumes "0 \<le> dt" and "\<forall>d\<in>set dts. 0 \<le> d"
    and "distinct (map snd (aircraft_paths pm @ track_paths pm))"
    and "progress_in_range h pm"
  shows "(\<exists>h' ups. update_positions h pm dt = Inr (h', ups)
       \<and> map upd_id ups
           = map fst (filter (\<lambda>(pid, r). 0 < distance_nm (dicts h r))
                        (aircraft_paths pm @ track_paths pm))
       \<and> (\<forall>(pid, r)\<in>set (aircraft_paths pm @ track_paths pm).
             (0 < distance_nm (dicts h r) \<longrightarrow>
                dicts h' r = (dicts h r)\<lparr>current_position :=
                  frac (current_position (dicts h r)
                        + speed_kts (dicts h r) / 3600 * dt / distance_nm (dicts h r))\<rparr>)
           \<and> (distance_nm (dicts h r) = 0 \<longrightarrow> dicts h' r = dicts h r))
       \<and> progress_in_range h' pm)
     \<and> (\<exists>h''. run_ticks h pm dts = Inr h'' \<and> progress_in_range h'' pm)"
proof -
  obtain h' ups where up: "update_positions h pm dt = Inr (h', ups)"
    and ids: "map upd_id ups
           = map fst (filter (\<lambda>(pid, r). 0 < distance_nm (dicts h r))
                        (aircraft_paths pm @ track_paths pm))"
    and all: "\<forall>(pid, r)\<in>set (aircraft_paths pm @ track_paths pm).
                 dicts h' r = advanced dt (dicts h r)"
    using update_positions_moves [OF assms(1,3,4)] by blast
  have each: "\<forall>(pid, r)\<in>set (aircraft_paths pm @ track_paths pm).
             (0 < distance_nm (dicts h r) \<longrightarrow>
                dicts h' r = (dicts h r)\<lparr>current_position :=
                  frac (current_position (dicts h r)
                        + speed_kts (dicts h r) / 3600 * dt / distance_nm (dicts h r))\<rparr>)
           \<and> (distance_nm (dicts h r) = 0 \<longrightarrow> dicts h' r = dicts h r)"
    using all by (fastforce simp add: advanced_def)
  have rng: "progress_in_range h' pm"
    using update_positions_keeps_range [OF assms(1,3,4) up] .
  from up ids each rng run_ticks_keeps_range [OF assms(2,3,4)] show ?thesis
    by blast
qed

lemma format_04d_2: "format_04d 2 = ''0002''"
  by code_simp

lemma reverse_state_eq:
  "reverse_state d =
     (\<lparr>dicts = (dicts init_heap)
         (4 := \<lparr>path_id = ''AC-0001'', path_type = ''aircraft'', points = 3, distance_nm = d,
                speed_kts = - 450, altitude_ft = 15000, current_position = 0,
                color = ''green'', created = ''t1''\<rparr>),
       lists = (lists init_heap)(3 := [0, 1, 2]),
       cells = (cells init_heap)(0 := (20, 78), 1 := (21, 79), 2 := (22, 80)),
       next_ref = 5\<rparr>,
      \<lparr>aircraft_paths = [(''AC-0001'', 4)], track_paths = [],
       next_aircraft_id = 2, next_track_id = 1\<rparr>)"
  by (simp add: reverse_state_def make_points_def new_cell_def new_list_def new_dict_def
      add_aircraft_path_def init_heap_def init_PathManager_def
      value_or_random_def format_04d_Suc_0 Let_def eval_nat_numeral)

lemma mixed_state_eq:
  "mixed_state =
     (\<lparr>dicts = (dicts init_heap)(4 := demo_aircraft, 8 := demo_track,
         12 := \<lparr>path_id = ''AC-0002'', path_type = ''aircraft'', points = 11, distance_nm = 0,
                speed_kts = 500, altitude_ft = 20000, current_position = 0,
                color = ''green'', created = ''t3''\<rparr>),
       lists = (lists init_heap)(3 := [0, 1, 2], 7 := [5, 6], 11 := [9, 10]),
       cells = (cells init_heap)
         (0 := (20, 78), 1 := (21, 79), 2 := (22, 80), 5 := (10, 70), 6 := (11, 71),
          9 := (5, 5), 10 := (5, 5)),
       next_ref = 13\<rparr>,
      \<lparr>aircraft_paths = [(''AC-0001'', 4), (''AC-0002'', 12)], track_paths = [(''TRK-0001'', 8)],
       next_aircraft_id = 3, next_track_id = 2\<rparr>)"
  using format_04d_2
  by (simp add: mixed_state_def demo_state_eq make_points_def new_cell_def new_list_def
      new_dict_def add_aircraft_path_def init_heap_def value_or_random_def Let_def
      eval_nat_numeral)

text \<open>
  C2 as stated fails for a path of negative speed, which \<^verbatim>\<open>add_aircraft_path\<close>
  stores as it is given: the progress is only wrapped when it reaches 1. With the speed
  -450 and the distance 4500 one tick of 3600 s takes the progress from 0 to -0.1; with
  the distance 100 the interpolation indexes the waypoints at -9 and the call raises
  \<^verbatim>\<open>IndexError\<close>, so no batch is returned.
\<close>

theorem C2_negative_speed_counterexample:
  "speed_kts (dicts (fst (reverse_state 4500)) 4) = - 450
 \<and> distance_nm (dicts (fst (reverse_state 4500)) 4) = 4500
 \<and> current_position (dicts (fst (reverse_state 4500)) 4) = 0
 \<and> progress_after
      (update_positions (fst (reverse_state 4500)) (snd (reverse_state 4500)) 3600) 4
     = Some (- 1 / 10)
 \<and> update_positions (fst (reverse_state 100)) (snd (reverse_state 100)) 3600 = Inl IndexError"
  apply (simp add: reverse_state_eq update_positions_def advance_path_def Let_def set_dict_def
      read_points_def progress_after_def)
  apply (simp add: interpolate_path_def calculate_heading_def py_int_def py_index_def Let_def
      init_heap_def)
  done

lemma mixed_objects:
  "aircraft_paths (snd mixed_state) = [(''AC-0001'', 4), (''AC-0002'', 12)]"
  "track_paths (snd mixed_state) = [(''TRK-0001'', 8)]"
  "dicts (fst mixed_state) 4 = demo_aircraft"
  "dicts (fst mixed_state) 8 = demo_track"
  "distance_nm (dicts (fst mixed_state) 12) = 0"
  "speed_kts (dicts (fst mixed_state) 12) = 500"
  "current_position (dicts (fst mixed_state) 12) = 0"
  by (simp_all add: mixed_state_eq)

theorem C2_advance_wraps_progress_witness:
  "progress_in_range (fst mixed_state) (snd mixed_state)
 \<and> ids_after (update_positions (fst mixed_state) (snd mixed_state) 3600)
     = Some [''AC-0001'', ''TRK-0001'']
 \<and> progress_after (update_positions (fst mixed_state) (snd mixed_state) 3600) 4 = Some (1 / 2)
 \<and> progress_after (update_positions (fst mixed_state) (snd mixed_state) 3600) 12 = Some 0
 \<and> progress_after (update_positions (fst mixed_state) (snd mixed_state) 3600) 8 = Some 0
 \<and> (\<exists>h. run_ticks (fst mixed_state) (snd mixed_state) [3600, 0, 1800] = Inr h)"
proof -
  have a: "(0::real) \<le> 3600" and b: "\<forall>d\<in>set [3600, 0, 1800::real]. 0 \<le> d"
    by simp_all
  have c: "distinct (map snd (aircraft_paths (snd mixed_state) @ track_paths (snd mixed_state)))"
    by (simp add: mixed_objects)
  have d: "progress_in_range (fst mixed_state) (snd mixed_state)"
    by (simp add: progress_in_range_def mixed_objects demo_aircraft_def demo_track_def)
  from C2_advance_wraps_progress [OF a b c d]
  obtain h' ups where up: "update_positions (fst mixed_state) (snd mixed_state) 3600 = Inr (h', ups)"
    and ids: "map upd_id ups = [''AC-0001'', ''TRK-0001'']"
    and p4: "dicts h' 4 = demo_aircraft\<lparr>current_position := frac (9 / 2)\<rparr>"
    and p12: "dicts h' 12 = dicts (fst mixed_state) 12"
    and p8: "dicts h' 8 = demo_track\<lparr>current_position := frac 8\<rparr>"
    and ticks: "\<exists>h. run_ticks (fst mixed_state) (snd mixed_state) [3600, 0, 1800] = Inr h"
    by (auto simp add: mixed_objects demo_aircraft_def demo_track_def)
  have "frac (9 / 2 :: real) = 1 / 2" "frac (8::real) = 0"
    by (simp_all add: frac_def)
  with up ids p4 p12 p8 ticks d show ?thesis
    by (simp add: ids_after_def progress_after_def mixed_objects)
qed

subsection \<open>Bounds for the sine, the cosine and \<open>pi\<close>\<close>

text \<open>Taylor polynomials with the remainder of Maclaurin's theorem bound the cosine and
  the sine; the sign of the cosine next to \<open>pi / 2\<close> bounds \<open>pi\<close>.\<close>

lemma cos_sum10: "(\<Sum>m<10. cos_coeff m * x ^ m)
    = 1 - x\<^sup>2 / 2 + x ^ 4 / 24 - x ^ 6 / 720 + x ^ 8 / 40320" for x :: real
  by (simp add: cos_coeff_def lessThan_nat_numeral sum.lessThan_Suc fact_numeral)

lemma sin_sum3: "(\<Sum>m<3. sin_coeff m * x ^ m) = x" for x :: real
  by (simp add: sin_coeff_def lessThan_nat_numeral sum.lessThan_Suc fact_numeral)

lemma cos_poly_bound:
  "\<bar>cos x - (1 - x\<^sup>2 / 2 + x ^ 4 / 24 - x ^ 6 / 720 + x ^ 8 / 40320)\<bar> \<le> x ^ 10 / 3628800"
  for x :: real
proof -
  obtain t where t: "cos x = (\<Sum>m<10. cos_coeff m * x ^ m)
      + (cos (t + 1 / 2 * real (10::nat) * pi) / fact 10) * x ^ 10"
    using Maclaurin_cos_expansion [of x 10] by blast
  define c where "c = cos (t + 1 / 2 * real (10::nat) * pi)"
  define r where "r = x ^ 10 / 3628800"
  have c: "\<bar>c\<bar> \<le> 1" by (simp add: c_def)
  have r: "0 \<le> r" by (simp add: r_def)
  have e: "cos x - (1 - x\<^sup>2 / 2 + x ^ 4 / 24 - x ^ 6 / 720 + x ^ 8 / 40320) = c * r"
    using t unfolding cos_sum10 c_def [symmetric] by (simp add: fact_numeral r_def)
  have "\<bar>c * r\<bar> = \<bar>c\<bar> * r" using r by (simp add: abs_mult)
  also have "\<dots> \<le> 1 * r" using c r by (rule mult_right_mono)
  finally show ?thesis unfolding e r_def by simp
qed

lemma cos_lower:
  "1 - x\<^sup>2 / 2 + x ^ 4 / 24 - x ^ 6 / 720 + x ^ 8 / 40320 - x ^ 10 / 3628800 \<le> cos x"
  for x :: real
  using cos_poly_bound [of x] by linarith

lemma cos_upper:
  "cos x \<le> 1 - x\<^sup>2 / 2 + x ^ 4 / 24 - x ^ 6 / 720 + x ^ 8 / 40320 + x ^ 10 / 3628800"
  for x :: real
  using cos_poly_bound [of x] by linarith

lemma sin_lower: "0 \<le> x \<Longrightarrow> x - x ^ 3 / 6 \<le> sin x" for x :: real
proof -
  assume "0 \<le> x"
  then have "\<bar>sin x - x\<bar> \<le> x ^ 3 / 6"
    using Maclaurin_sin_bound [of x 3] by (simp add: sin_sum3 fact_numeral)
  then show ?thesis by linarith
qed

lemma pi_half_lower: "15707 / 10000 < pi / 2"
proof (rule ccontr)
  assume "\<not> 15707 / 10000 < pi / 2"
  then have le: "pi / 2 \<le> 15707 / 10000" by simp
  have "15707 / 10000 \<le> pi" using pi_ge_two by simp
  with le have "cos (15707 / 10000) \<le> cos (pi / 2)"
    by (intro cos_monotone_0_pi_le) simp_all
  then have "cos (15707 / 10000 :: real) \<le> 0" by simp
  moreover have "0 < cos (15707 / 10000 :: real)"
    using cos_lower [of "15707 / 10000"] by (simp add: power_divide)
  ultimately show False by simp
qed

lemma pi_half_upper: "pi / 2 < 1571 / 1000"
proof (rule ccontr)
  assume "\<not> pi / 2 < 1571 / 1000"
  then have le: "1571 / 1000 \<le> pi / 2" by simp
  have "cos (pi / 2) \<le> cos (1571 / 1000)"
    using le by (intro cos_monotone_0_pi_le) simp_all
  then have "0 \<le> cos (1571 / 1000 :: real)" by simp
  moreover have "cos (1571 / 1000 :: real) < 0"
    using cos_upper [of "1571 / 1000"] by (simp add: power_divide)
  ultimately show False by simp
qed

lemma pi_bounds: "31414 / 10000 < pi" "pi < 3142 / 1000"
  using pi_half_lower pi_half_upper by simp_all

lemma sin_small_bounds:
  fixes x :: real
  assumes "31414 / 3600000 < x" and "x < 3142 / 360000"
  shows "7613 / 100000000 \<le> (sin x)\<^sup>2" and "(sin x)\<^sup>2 \<le> 7618 / 100000000"
proof -
  have x0: "0 \<le> x" using assms by simp
  have up: "sin x \<le> 3142 / 360000"
    using sin_x_le_x [OF x0] assms by linarith
  have "x ^ 3 \<le> (3142 / 360000) ^ 3"
    using x0 assms by (intro power_mono) simp_all
  then have lo: "87255 / 10000000 \<le> sin x"
    using sin_lower [OF x0] assms by (simp add: power_divide)
  have "(87255 / 10000000)\<^sup>2 \<le> (sin x)\<^sup>2"
    using lo by (intro power_mono) simp_all
  then show "7613 / 100000000 \<le> (sin x)\<^sup>2"
    by (simp add: power_divide)
  have "(sin x)\<^sup>2 \<le> (3142 / 360000)\<^sup>2"
    using up lo by (intro power_mono) simp_all
  then show "(sin x)\<^sup>2 \<le> 7618 / 100000000"
    by (simp add: power_divide)
qed

lemma cos_20_bounds: "9396 / 10000 \<le> cos (pi / 9)" "cos (pi / 9) \<le> 9398 / 10000"
proof -
  have lo: "31414 / 90000 \<le> pi / 9" and hi: "pi / 9 \<le> 3142 / 9000"
    using pi_bounds by simp_all
  have "cos (3142 / 9000) \<le> cos (pi / 9)"
    using hi pi_bounds by (intro cos_monotone_0_pi_le) simp_all
  moreover have "9396 / 10000 \<le> cos (3142 / 9000 :: real)"
    using cos_lower [of "3142 / 9000"] by (simp add: power_divide)
  ultimately show "9396 / 10000 \<le> cos (pi / 9)" by linarith
  have "cos (pi / 9) \<le> cos (31414 / 90000)"
    using lo pi_bounds by (intro cos_monotone_0_pi_le) simp_all
  moreover have "cos (31414 / 90000 :: real) \<le> 9398 / 10000"
    using cos_upper [of "31414 / 90000"] by (simp add: power_divide)
  ultimately show "cos (pi / 9) \<le> 9398 / 10000" by linarith
qed

lemma cos_21_bounds: "9335 / 10000 \<le> cos (7 * pi / 60)" "cos (7 * pi / 60) \<le> 9337 / 10000"
proof -
  have lo: "7 * 31414 / 600000 \<le> 7 * pi / 60" and hi: "7 * pi / 60 \<le> 7 * 3142 / 60000"
    using pi_bounds by simp_all
  have "cos (7 * 3142 / 60000) \<le> cos (7 * pi / 60)"
    using hi pi_bounds by (intro cos_monotone_0_pi_le) simp_all
  moreover have "9335 / 10000 \<le> cos (7 * 3142 / 60000 :: real)"
    using cos_lower [of "7 * 3142 / 60000"] by (simp add: power_divide)
  ultimately show "9335 / 10000 \<le> cos (7 * pi / 60)" by linarith
  have "cos (7 * pi / 60) \<le> cos (7 * 31414 / 600000)"
    using lo pi_bounds by (intro cos_monotone_0_pi_le) simp_all
  moreover have "cos (7 * 31414 / 600000 :: real) \<le> 9337 / 10000"
    using cos_upper [of "7 * 31414 / 600000"] by (simp add: power_divide)
  ultimately show "cos (7 * pi / 60) \<le> 9337 / 10000" by linarith
qed

lemma scenario_hav_bounds:
  fixes S c1 c2 :: real
  assumes "7613 / 100000000 \<le> S" "S \<le> 7618 / 100000000"
    and "9396 / 10000 \<le> c1" "c1 \<le> 9398 / 10000"
    and "9335 / 10000 \<le> c2" "c2 \<le> 9337 / 10000"
  shows "1429 / 10000000 \<le> S + c1 * c2 * S" and "S + c1 * c2 * S \<le> 14303 / 100000000"
proof -
  have lo: "(9396 / 10000) * (9335 / 10000) \<le> c1 * c2"
    using assms by (intro mult_mono) simp_all
  have hi: "c1 * c2 \<le> (9398 / 10000) * (9337 / 10000)"
    using assms by (intro mult_mono) simp_all
  have e: "S + c1 * c2 * S = (1 + c1 * c2) * S"
    by (simp add: algebra_simps)
  have "(1 + (9396 / 10000) * (9335 / 10000)) * (7613 / 100000000) \<le> (1 + c1 * c2) * S"
    using lo assms(1) by (intro mult_mono) simp_all
  then show "1429 / 10000000 \<le> S + c1 * c2 * S"
    unfolding e by simp
  have "(1 + c1 * c2) * S \<le> (1 + (9398 / 10000) * (9337 / 10000)) * (7618 / 100000000)"
    using hi lo assms(1,2) by (intro mult_mono) simp_all
  then show "S + c1 * c2 * S \<le> 14303 / 100000000"
    unfolding e by simp
qed

lemma scenario_angle_bounds:
  fixes a :: real
  assumes "1429 / 10000000 \<le> a" and "a \<le> 14303 / 100000000"
  shows "1195 / 100000 \<le> arcsin (sqrt a)" and "arcsin (sqrt a) \<le> 119604 / 10000000"
proof -
  have s_lo: "1195 / 100000 \<le> sqrt a"
    using assms(1) by (intro real_le_rsqrt) (simp add: power_divide)
  have s_hi: "sqrt a \<le> 1196 / 100000"
    using assms(2) by (intro real_le_lsqrt) (simp_all add: power_divide)
  have pi2: "(1::real) < pi / 2"
    using pi_ge_two pi_half_lower by simp
  have a1: "0 \<le> a" "a \<le> 1"
    using assms by simp_all
  have "sin (1195 / 100000 :: real) \<le> 1195 / 100000"
    by (intro sin_x_le_x) simp
  then have "sin (1195 / 100000 :: real) \<le> sqrt a"
    using s_lo by linarith
  then show "1195 / 100000 \<le> arcsin (sqrt a)"
    using s_lo s_hi pi2 a1 by (subst le_arcsin_iff) simp_all
  have "(1196 / 100000 :: real) \<le> sin (119604 / 10000000)"
    using sin_lower [of "119604 / 10000000"] by (simp add: power_divide)
  then have "sqrt a \<le> sin (119604 / 10000000)"
    using s_hi by linarith
  then show "arcsin (sqrt a) \<le> 119604 / 10000000"
    using s_lo s_hi pi2 a1 by (subst arcsin_le_iff) simp_all
qed

subsection \<open>Scenario A\<close>

lemma scenario_a_haversine:
  "haversine_a (20, 78) (21, 79)
     = (sin (pi / 360))\<^sup>2 + cos (pi / 9) * cos (7 * pi / 60) * (sin (pi / 360))\<^sup>2"
  by (simp add: haversine_a_def radians_def Let_def)

lemma scenario_a_distance_bounds:
  "822 / 10 < scenario_a_distance" "scenario_a_distance < 823 / 10"
proof -
  have x: "31414 / 3600000 < pi / 360" "pi / 360 < 3142 / 360000"
    using pi_bounds by simp_all
  note S = sin_small_bounds [OF x]
  note a = scenario_hav_bounds [OF S cos_20_bounds cos_21_bounds]
  note y = scenario_angle_bounds [OF a]
  have d: "scenario_a_distance = 3440065 / 1000 * (2 * arcsin (sqrt
      ((sin (pi / 360))\<^sup>2 + cos (pi / 9) * cos (7 * pi / 60) * (sin (pi / 360))\<^sup>2)))"
    by (simp add: scenario_a_distance_def great_circle_def scenario_a_haversine earth_radius_def)
  show "822 / 10 < scenario_a_distance" using y(1) unfolding d by simp
  show "scenario_a_distance < 823 / 10" using y(2) unfolding d by simp
qed

lemma scenario_a_state_eq:
  "scenario_a_state d =
     (\<lparr>dicts = (dicts init_heap)
         (3 := \<lparr>path_id = ''AC-0001'', path_type = ''aircraft'', points = 2, distance_nm = d,
                speed_kts = 450, altitude_ft = 15000, current_position = 0,
                color = ''green'', created = ''t1''\<rparr>),
       lists = (lists init_heap)(2 := [0, 1]),
       cells = (cells init_heap)(0 := (20, 78), 1 := (21, 79)),
       next_ref = 4\<rparr>,
      \<lparr>aircraft_paths = [(''AC-0001'', 3)], track_paths = [],
       next_aircraft_id = 2, next_track_id = 1\<rparr>)"
  by (simp add: scenario_a_state_def scenario_a_route_def make_points_def new_cell_def
      new_list_def new_dict_def add_aircraft_path_def init_heap_def init_PathManager_def
      value_or_random_def format_04d_Suc_0 Let_def eval_nat_numeral)

lemma scenario_a_quotient:
  "546 / 100 < 450 / scenario_a_distance" "450 / scenario_a_distance < 548 / 100"
proof -
  have pos: "0 < scenario_a_distance"
    using scenario_a_distance_bounds(1) by simp
  show "546 / 100 < 450 / scenario_a_distance"
    using scenario_a_distance_bounds(2) pos by (simp add: field_simps)
  show "450 / scenario_a_distance < 548 / 100"
    using scenario_a_distance_bounds(1) pos by (simp add: field_simps)
qed

lemma scenario_a_computed:
  "calculate_distance scenario_a_route = Inr scenario_a_distance"
  "calculate_path_distance scenario_a_route = Inr scenario_a_distance"
  by (simp_all add: calculate_path_distance_eq calculate_distance_total scenario_a_route_def
      scenario_a_distance_def)

lemma scenario_a_tick:
  "progress_after
     (update_positions (fst (scenario_a_state scenario_a_distance))
        (snd (scenario_a_state scenario_a_distance)) 3600) 3
   = Some (450 / scenario_a_distance - 5)"
proof -
  define h where "h = fst (scenario_a_state scenario_a_distance)"
  define pm where "pm = snd (scenario_a_state scenario_a_distance)"
  have pm: "aircraft_paths pm = [(''AC-0001'', 3)]" "track_paths pm = []"
    and h: "distance_nm (dicts h 3) = scenario_a_distance" "speed_kts (dicts h 3) = 450"
      "current_position (dicts h 3) = 0"
    by (simp_all add: pm_def h_def scenario_a_state_eq)
  have pos: "0 < scenario_a_distance"
    using scenario_a_distance_bounds(1) by simp
  have a: "(0::real) \<le> 3600" by simp
  have b: "distinct (map snd (aircraft_paths pm @ track_paths pm))"
    by (simp add: pm)
  have c: "progress_in_range h pm"
    by (simp add: progress_in_range_def pm h)
  obtain h' ups where up: "update_positions h pm 3600 = Inr (h', ups)"
    and d: "dicts h' 3 = advanced 3600 (dicts h 3)"
    using update_positions_moves [OF a b c] by (auto simp add: pm)
  have "\<lfloor>450 / scenario_a_distance\<rfloor> = 5"
    using scenario_a_quotient by (intro floor_unique) simp_all
  then have "frac (450 / scenario_a_distance) = 450 / scenario_a_distance - 5"
    by (simp add: frac_def)
  then have "current_position (dicts h' 3) = 450 / scenario_a_distance - 5"
    using pos by (simp add: d advanced_def h)
  then show ?thesis
    using up by (simp add: progress_after_def h_def pm_def)
qed

lemma scenario_a_created:
  "distance_nm (dicts (fst (scenario_a_state d)) 3) = d"
  "speed_kts (dicts (fst (scenario_a_state d)) 3) = 450"
  "altitude_ft (dicts (fst (scenario_a_state d)) 3) = 15000"
  "current_position (dicts (fst (scenario_a_state d)) 3) = 0"
  by (simp_all add: scenario_a_state_eq)

text \<open>
  C3 as stated fails. The distance computed for the route of scenario A is below 82.3, so
  it is not within 1 of 83.5; the tick of 3600 s adds 450 divided by that distance, which
  is not within 0.05 of 5.39, and leaves the progress \<open>450 / distance - 5\<close>, which is
  not within 0.05 of 0.39.
\<close>

theorem C3_scenario_a_counterexample:
  "calculate_distance scenario_a_route = Inr scenario_a_distance
 \<and> distance_nm (dicts (fst (scenario_a_state scenario_a_distance)) 3) = scenario_a_distance
 \<and> \<not> approx 1 scenario_a_distance (835 / 10)
 \<and> progress_after
      (update_positions (fst (scenario_a_state scenario_a_distance))
         (snd (scenario_a_state scenario_a_distance)) 3600) 3
     = Some (450 / scenario_a_distance - 5)
 \<and> \<not> approx (5 / 100) (450 / scenario_a_distance) (539 / 100)
 \<and> \<not> approx (5 / 100) (450 / scenario_a_distance - 5) (39 / 100)"
proof -
  have "\<not> approx 1 scenario_a_distance (835 / 10)"
    unfolding approx_def using scenario_a_distance_bounds by linarith
  moreover have "\<not> approx (5 / 100) (450 / scenario_a_distance) (539 / 100)"
    "\<not> approx (5 / 100) (450 / scenario_a_distance - 5) (39 / 100)"
    unfolding approx_def using scenario_a_quotient by linarith+
  ultimately show ?thesis
    by (simp only: scenario_a_computed scenario_a_tick scenario_a_created simp_thms)
qed

text \<open>
  C3 as amended. Both distance functions return for the route
  \<^verbatim>\<open>[[20.0, 78.0], [21.0, 79.0]]\<close> the haversine great-circle distance at the radius
  3440.065 nm, which lies between 82.2 and 82.3. The aircraft path created with that
  distance, the speed 450 and the altitude 15000 stores the three values and the
  progress 0. One call of \<^verbatim>\<open>update_positions\<close> with 3600 s adds 450 divided by the
  distance, between 5.46 and 5.48, and wraps: the progress left is that quotient less 5,
  between 0.46 and 0.48.
\<close>

theorem C3_scenario_a:
  "calculate_distance scenario_a_route = Inr scenario_a_distance
 \<and> calculate_path_distance scenario_a_route = Inr scenario_a_distance
 \<and> approx (5 / 100) scenario_a_distance (8225 / 100)
 \<and> distance_nm (dicts (fst (scenario_a_state scenario_a_distance)) 3) = scenario_a_distance
 \<and> speed_kts (dicts (fst (scenario_a_state scenario_a_distance)) 3) = 450
 \<and> altitude_ft (dicts (fst (scenario_a_state scenario_a_distance)) 3) = 15000
 \<and> current_position (dicts (fst (scenario_a_state scenario_a_distance)) 3) = 0
 \<and> progress_after
      (update_positions (fst (scenario_a_state scenario_a_distance))
         (snd (scenario_a_state scenario_a_distance)) 3600) 3
     = Some (450 / scenario_a_distance - 5)
 \<and> approx (1 / 100) (450 / scenario_a_distance) (547 / 100)
 \<and> approx (1 / 100) (450 / scenario_a_distance - 5) (47 / 100)"
proof -
  have "approx (5 / 100) scenario_a_distance (8225 / 100)"
    unfolding approx_def using scenario_a_distance_bounds by linarith
  moreover have "approx (1 / 100) (450 / scenario_a_distance) (547 / 100)"
    "approx (1 / 100) (450 / scenario_a_distance - 5) (47 / 100)"
    unfolding approx_def using scenario_a_quotient by linarith+
  ultimately show ?thesis
    by (simp only: scenario_a_computed scenario_a_tick scenario_a_created simp_thms)
qed

end
